theory Spec2Isabelle
  imports Complex_Main
begin

section \<open>Numbers, arrays and exceptions\<close>

text \<open>
  The package computes with IEEE doubles held in numpy/JAX arrays.  A double is modelled as
  a real number, or one of the three special values the solver tests for or produces on
  purpose (\<open>np.inf\<close>, \<open>np.nan\<close>).  Rounding, overflow and the sign of zero are not modelled:
  a finite result is the exact real result, and a non-zero finite value divided by zero is
  the infinity with the sign of the numerator.
\<close>

datatype fl = Fin real | PInf | MInf | NaN

fun isnan :: "fl \<Rightarrow> bool" where
  "isnan NaN = True"
| "isnan _ = False"

fun fneg :: "fl \<Rightarrow> fl" where
  "fneg (Fin x) = Fin (- x)"
| "fneg PInf = MInf"
| "fneg MInf = PInf"
| "fneg NaN = NaN"

fun fadd :: "fl \<Rightarrow> fl \<Rightarrow> fl" where
  "fadd NaN _ = NaN"
| "fadd _ NaN = NaN"
| "fadd (Fin x) (Fin y) = Fin (x + y)"
| "fadd PInf MInf = NaN"
| "fadd MInf PInf = NaN"
| "fadd PInf _ = PInf"
| "fadd _ PInf = PInf"
| "fadd MInf _ = MInf"
| "fadd _ MInf = MInf"

definition fsub :: "fl \<Rightarrow> fl \<Rightarrow> fl" where
  "fsub a b = fadd a (fneg b)"

text \<open>The sign of a value that is not NaN: \<open>-1\<close>, \<open>0\<close> or \<open>1\<close>.\<close>

fun sgn_of :: "fl \<Rightarrow> int" where
  "sgn_of (Fin x) = (if x < 0 then - 1 else if x = 0 then 0 else 1)"
| "sgn_of PInf = 1"
| "sgn_of MInf = - 1"
| "sgn_of NaN = 0"

definition inf_of_sign :: "int \<Rightarrow> fl" where
  "inf_of_sign s = (if s < 0 then MInf else if s = 0 then NaN else PInf)"

fun fmul :: "fl \<Rightarrow> fl \<Rightarrow> fl" where
  "fmul NaN _ = NaN"
| "fmul _ NaN = NaN"
| "fmul (Fin x) (Fin y) = Fin (x * y)"
| "fmul a b = inf_of_sign (sgn_of a * sgn_of b)"

fun fdiv :: "fl \<Rightarrow> fl \<Rightarrow> fl" where
  "fdiv NaN _ = NaN"
| "fdiv _ NaN = NaN"
| "fdiv (Fin x) (Fin y) = (if y = 0 then inf_of_sign (sgn_of (Fin x)) else Fin (x / y))"
| "fdiv (Fin x) _ = Fin 0"
| "fdiv a (Fin y) = (if y < 0 then fneg a else a)"
| "fdiv _ _ = NaN"

fun fabs :: "fl \<Rightarrow> fl" where
  "fabs (Fin x) = Fin \<bar>x\<bar>"
| "fabs PInf = PInf"
| "fabs MInf = PInf"
| "fabs NaN = NaN"

fun fsqrt :: "fl \<Rightarrow> fl" where
  "fsqrt (Fin x) = (if x < 0 then NaN else Fin (sqrt x))"
| "fsqrt PInf = PInf"
| "fsqrt MInf = NaN"
| "fsqrt NaN = NaN"

text \<open>Comparison \<open>a < b\<close>: false as soon as one side is NaN.\<close>

fun flt :: "fl \<Rightarrow> fl \<Rightarrow> bool" where
  "flt NaN _ = False"
| "flt _ NaN = False"
| "flt (Fin x) (Fin y) = (x < y)"
| "flt MInf MInf = False"
| "flt MInf _ = True"
| "flt _ MInf = False"
| "flt PInf _ = False"
| "flt _ PInf = True"

definition fgt :: "fl \<Rightarrow> fl \<Rightarrow> bool" where
  "fgt a b = flt b a"

text \<open>
  Python's builtin \<open>max(a, b)\<close> and \<open>min(a, b)\<close> keep the first argument unless the second
  compares strictly beyond it; \<open>np.maximum\<close> instead propagates NaN.
\<close>

definition py_max :: "fl \<Rightarrow> fl \<Rightarrow> fl" where
  "py_max a b = (if fgt b a then b else a)"

definition py_min :: "fl \<Rightarrow> fl \<Rightarrow> fl" where
  "py_min a b = (if flt b a then b else a)"

definition np_maximum1 :: "fl \<Rightarrow> fl \<Rightarrow> fl" where
  "np_maximum1 a b = (if isnan a then a else if isnan b then b else if flt a b then b else a)"

type_synonym vec = "fl list"
type_synonym mat = "fl list list"

text \<open>
  The exceptions the modelled code can raise.  An \<open>assert\<close> that fails is an
  \<open>AssertionError\<close> carrying its message.  Operations on arrays of different lengths are a
  \<open>ValueError\<close> (numpy's broadcasting of one-element arrays is not modelled).
\<close>

datatype error =
    AssertionError string
  | KeyError string
  | TypeError
  | ValueError
  | IndexError
  | NameError
  | AttributeError
  | ZeroDivisionError
  | UserError string

definition bindE :: "error + 'a \<Rightarrow> ('a \<Rightarrow> error + 'b) \<Rightarrow> error + 'b" where
  "bindE m f = (case m of Inl e \<Rightarrow> Inl e | Inr x \<Rightarrow> f x)"

definition np_sum :: "vec \<Rightarrow> fl" where
  "np_sum v = foldl fadd (Fin 0) v"

definition np_sum2 :: "mat \<Rightarrow> fl" where
  "np_sum2 A = np_sum (concat A)"

definition vneg :: "vec \<Rightarrow> vec" where
  "vneg v = map fneg v"

definition vscale :: "fl \<Rightarrow> vec \<Rightarrow> vec" where
  "vscale a v = map (fmul a) v"

definition vdivs :: "vec \<Rightarrow> fl \<Rightarrow> vec" where
  "vdivs v a = map (\<lambda>x. fdiv x a) v"

definition vzip :: "(fl \<Rightarrow> fl \<Rightarrow> fl) \<Rightarrow> vec \<Rightarrow> vec \<Rightarrow> error + vec" where
  "vzip f u v = (if length u = length v then Inr (map2 f u v) else Inl ValueError)"

definition vadd :: "vec \<Rightarrow> vec \<Rightarrow> error + vec" where
  "vadd = vzip fadd"

definition vsub :: "vec \<Rightarrow> vec \<Rightarrow> error + vec" where
  "vsub = vzip fsub"

definition vmul :: "vec \<Rightarrow> vec \<Rightarrow> error + vec" where
  "vmul = vzip fmul"

definition vdiv :: "vec \<Rightarrow> vec \<Rightarrow> error + vec" where
  "vdiv = vzip fdiv"

text \<open>The inner product \<open>u @ v\<close> of two one-dimensional arrays.\<close>

definition dot :: "vec \<Rightarrow> vec \<Rightarrow> error + fl" where
  "dot u v = bindE (vmul u v) (\<lambda>p. Inr (np_sum p))"

definition zeros :: "nat \<Rightarrow> vec" where
  "zeros n = replicate n (Fin 0)"

section \<open>The nonlinear solver (jax/solvers.py)\<close>

subsection \<open>Configuration\<close>

text \<open>
  \<open>NonlinearSolverOMP.config\<close>: the default dictionary of \<open>__init__\<close> overridden by the
  caller's entries.  A tolerance is \<open>None\<close> until it is set.
\<close>

record solver_config =
  max_steps :: int
  reform_freq :: int
  verbose :: bool
  xtol :: "fl option"
  rtol :: "fl option"
  etol :: "fl option"
  xtol_rel :: "fl option"
  rtol_rel :: "fl option"
  etol_rel :: "fl option"
  stopping_tol :: "string list"
  accepting_tol :: "string list"

definition default_solver_config :: solver_config where
  "default_solver_config =
     \<lparr> max_steps = 20, reform_freq = 1, verbose = True,
       xtol = None, rtol = None, etol = None,
       xtol_rel = None, rtol_rel = None, etol_rel = None,
       stopping_tol = [''xtol''], accepting_tol = [] \<rparr>"

text \<open>
  \<open>tol_dict[key]\<close> for the configuration dictionary: the outer \<open>None\<close> is a key the
  dictionary does not hold a number or \<open>None\<close> for, the inner one the value \<open>None\<close>.
\<close>

definition tol_dict :: "solver_config \<Rightarrow> string \<Rightarrow> fl option option" where
  "tol_dict cfg key =
     (if key = ''xtol'' then Some (xtol cfg)
      else if key = ''rtol'' then Some (rtol cfg)
      else if key = ''etol'' then Some (etol cfg)
      else if key = ''xtol_rel'' then Some (xtol_rel cfg)
      else if key = ''rtol_rel'' then Some (rtol_rel cfg)
      else if key = ''etol_rel'' then Some (etol_rel cfg)
      else None)"

subsection \<open>The convergence check\<close>

text \<open>
  \<open>_check_convg\<close>.  The dictionary of current errors is written as in the source, entry by
  entry; the loop over \<open>check_list\<close> evaluates \<open>converged or (np.abs(error_dict[key]) <
  tol_dict[key])\<close>, so nothing is looked up once \<open>converged\<close> is true.
\<close>

definition error_dict :: "fl \<Rightarrow> fl \<Rightarrow> fl \<Rightarrow> fl \<Rightarrow> fl \<Rightarrow> fl \<Rightarrow> (string \<times> fl) list" where
  "error_dict r_curr e_curr u_curr r_rel e_rel u_rel =
     [(''xtol'', u_curr),
      (''rtol'', r_curr),
      (''etol'', e_curr),
      (''xtol_rel'', e_rel),
      (''rtol_rel'', r_rel),
      (''etol_rel'', u_rel)]"

fun check_keys :: "(string \<Rightarrow> fl option option) \<Rightarrow> (string \<times> fl) list \<Rightarrow> bool \<Rightarrow> string list
    \<Rightarrow> error + bool" where
  "check_keys tols errs converged [] = Inr converged"
| "check_keys tols errs converged (key # keys) =
     (if converged then check_keys tols errs True keys
      else (case map_of errs key of
              None \<Rightarrow> Inl (KeyError key)
            | Some err \<Rightarrow>
                (case tols key of
                   None \<Rightarrow> Inl (KeyError key)
                 | Some None \<Rightarrow> Inl TypeError
                 | Some (Some tol) \<Rightarrow> check_keys tols errs (flt (fabs err) tol) keys)))"

definition check_convg :: "string list \<Rightarrow> (string \<Rightarrow> fl option option)
    \<Rightarrow> fl \<Rightarrow> fl \<Rightarrow> fl \<Rightarrow> fl \<Rightarrow> fl \<Rightarrow> fl \<Rightarrow> error + bool" where
  "check_convg check_list tols r_curr e_curr u_curr r_rel e_rel u_rel =
     check_keys tols (error_dict r_curr e_curr u_curr r_rel e_rel u_rel) False check_list"

subsection \<open>One solve\<close>

text \<open>
  The function to be solved takes the iterate and, when \<open>reform_freq > 1\<close>, a second
  positional argument \<open>calc_grad\<close> (\<open>None\<close> below when it is not passed).  It returns a
  tuple that starts with the residual, followed by the Jacobian when the gradient was
  computed (\<open>None\<close> below when the tuple holds the residual only), or it raises.
\<close>

type_synonym resfun = "vec \<Rightarrow> bool option \<Rightarrow> error + (vec \<times> mat option)"

text \<open>
  The dense linear algebra of the solver calls into JAX (\<open>lu_factor\<close>, \<open>lu_solve\<close>,
  \<open>linalg.solve\<close>); these library routines are parameters of the model.  \<open>'f\<close> is the type
  of the factorisation handle.
\<close>

record 'f linalg =
  lin_solve :: "mat \<Rightarrow> vec \<Rightarrow> error + vec"
  lin_factor :: "mat \<Rightarrow> error + 'f"
  lin_factored_solve :: "'f \<Rightarrow> vec \<Rightarrow> error + vec"

record sol_dict =
  message :: string
  nfev :: nat
  njev :: nat
  success :: bool

text \<open>The norms of the tolerance check; all six are first bound in iteration 0.\<close>

record norms =
  r_curr :: fl
  e_curr :: fl
  u_curr :: fl
  r0 :: fl
  e0 :: fl
  u0 :: fl

text \<open>
  The local variables of \<open>nsolve\<close> that live across iterations.  A variable that Python
  has not bound yet is \<open>None\<close>; reading it is a \<open>NameError\<close>.  \<open>bfgs_v\<close> and \<open>bfgs_w\<close> are
  held as their lists of columns.
\<close>

record 'f nsolve_state =
  X :: vec
  R :: "vec option"
  dRdX :: "mat option"
  deltaX :: "vec option"
  deltaXminus1 :: vec
  Rminus1 :: vec
  factored_data :: "'f option"
  bfgs_v :: "vec list option"
  bfgs_w :: "vec list option"
  bfgs_ind :: int
  no_nan_vals :: bool
  tols :: "norms option"
  sol :: sol_dict

definition bound :: "'a option \<Rightarrow> error + 'a" where
  "bound v = (case v of None \<Rightarrow> Inl NameError | Some x \<Rightarrow> Inr x)"

text \<open>
  The wrappers \<open>fun_R_dRdX\<close> and \<open>fun_R\<close>; the second exists only when \<open>reform_freq > 1\<close>.
  Unpacking \<open>R, dRdX = ...[0:2]\<close> needs both components.
\<close>

definition unpack2 :: "vec \<times> mat option \<Rightarrow> error + (vec \<times> mat)" where
  "unpack2 t = (case t of (r, Some j) \<Rightarrow> Inr (r, j) | (r, None) \<Rightarrow> Inl ValueError)"

definition fun_R_dRdX :: "solver_config \<Rightarrow> resfun \<Rightarrow> vec \<Rightarrow> error + (vec \<times> mat)" where
  "fun_R_dRdX cfg f x =
     bindE (if reform_freq cfg > 1 then f x (Some True) else f x None) unpack2"

definition fun_R :: "solver_config \<Rightarrow> resfun \<Rightarrow> vec \<Rightarrow> error + vec" where
  "fun_R cfg f x =
     (if reform_freq cfg > 1 then bindE (f x (Some False)) (\<lambda>(r, _). Inr r)
      else Inl NameError)"

text \<open>\<open>np.zeros((n, m))\<close> as \<open>m\<close> columns of length \<open>n\<close>; a negative dimension is refused.\<close>

definition zero_columns :: "nat \<Rightarrow> int \<Rightarrow> error + vec list" where
  "zero_columns n m = (if m < 0 then Inl ValueError else Inr (replicate (nat m) (zeros n)))"

definition get_col :: "vec list \<Rightarrow> nat \<Rightarrow> error + vec" where
  "get_col cols k = (if k < length cols then Inr (cols ! k) else Inl IndexError)"

definition set_col :: "vec list \<Rightarrow> nat \<Rightarrow> vec \<Rightarrow> error + vec list" where
  "set_col cols k v =
     (if \<not> k < length cols then Inl IndexError
      else if length v \<noteq> length (cols ! k) then Inl ValueError
      else Inr (cols[k := v]))"

text \<open>
  What one branch of the iteration hands to the common tail: either a NaN was found and the
  loop is left, or the state after the evaluations together with the step.
\<close>

datatype 'f branch = Nan_break "'f nsolve_state" | Step "'f nsolve_state" vec

text \<open>The full Newton update (\<open>bfgs_ind == 0\<close>).\<close>

definition newton_update ::
  "solver_config \<Rightarrow> 'f linalg \<Rightarrow> resfun \<Rightarrow> 'f nsolve_state \<Rightarrow> error + 'f branch" where
  "newton_update cfg L f st =
     bindE (fun_R_dRdX cfg f (X st)) (\<lambda>(r, j).
       let st1 = st\<lparr>R := Some r, dRdX := Some j,
                    sol := (sol st)\<lparr>nfev := nfev (sol st) + 1, njev := njev (sol st) + 1\<rparr>\<rparr>
       in if isnan (np_sum r) then Inr (Nan_break (st1\<lparr>no_nan_vals := False\<rparr>))
          else if isnan (np_sum2 j) then Inr (Nan_break (st1\<lparr>no_nan_vals := False\<rparr>))
          else
            bindE (lin_factor L (map (map (fmul (Fin (- 1)))) j)) (\<lambda>fd.
            bindE (lin_factored_solve L fd r) (\<lambda>d.
            bindE (zero_columns (length (X st)) (reform_freq cfg - 1)) (\<lambda>v.
            bindE (zero_columns (length (X st)) (reform_freq cfg - 1)) (\<lambda>w.
              Inr (Step (st1\<lparr>factored_data := Some fd, bfgs_v := Some v, bfgs_w := Some w\<rparr>)
                     d))))))"

text \<open>
  The two loops of the BFGS update, \<open>deltaX = deltaX + a[:, kk]*(b[:, kk] @ deltaX)\<close> for
  \<open>kk\<close> running over the given indices.
\<close>

fun bfgs_apply :: "vec list \<Rightarrow> vec list \<Rightarrow> nat list \<Rightarrow> vec \<Rightarrow> error + vec" where
  "bfgs_apply a b [] d = Inr d"
| "bfgs_apply a b (kk # ks) d =
     bindE (get_col a kk) (\<lambda>ak.
     bindE (get_col b kk) (\<lambda>bk.
     bindE (dot bk d) (\<lambda>s.
     bindE (vadd d (vscale s ak)) (\<lambda>d'.
       bfgs_apply a b ks d'))))"

definition bfgs_update ::
  "solver_config \<Rightarrow> 'f linalg \<Rightarrow> resfun \<Rightarrow> 'f nsolve_state \<Rightarrow> error + 'f branch" where
  "bfgs_update cfg L f st =
     bindE (fun_R cfg f (X st)) (\<lambda>r.
       let st1 = st\<lparr>R := Some r, sol := (sol st)\<lparr>nfev := nfev (sol st) + 1\<rparr>\<rparr>
       in if isnan (np_sum r) then Inr (Nan_break (st1\<lparr>no_nan_vals := False\<rparr>))
          else
            bindE (bound (bfgs_v st)) (\<lambda>v.
            bindE (bound (bfgs_w st)) (\<lambda>w.
            bindE (vsub r (Rminus1 st)) (\<lambda>dr.
            bindE (dot (deltaXminus1 st) dr) (\<lambda>den.
            bindE (set_col v (nat (bfgs_ind st - 1)) (vdivs (deltaXminus1 st) den)) (\<lambda>v'.
            bindE (bound (deltaX st)) (\<lambda>d.
            bindE (dot (vneg d) dr) (\<lambda>num.
            bindE (dot d (Rminus1 st)) (\<lambda>den2.
            let alpha = fsqrt (fdiv num den2) in
            bindE (vadd (vneg dr) (vscale alpha (Rminus1 st))) (\<lambda>wcol.
            bindE (set_col w (nat (bfgs_ind st - 1)) wcol) (\<lambda>w'.
            bindE (bfgs_apply w' v' (rev [0..<nat (bfgs_ind st)]) r) (\<lambda>d1.
            bindE (bound (factored_data st)) (\<lambda>fd.
            bindE (lin_factored_solve L fd d1) (\<lambda>d2.
            bindE (bfgs_apply v' w' [0..<nat (bfgs_ind st)] d2) (\<lambda>d3.
              Inr (Step (st1\<lparr>bfgs_v := Some v', bfgs_w := Some w'\<rparr>) d3))))))))))))))))"

definition compute_step ::
  "solver_config \<Rightarrow> 'f linalg \<Rightarrow> resfun \<Rightarrow> 'f nsolve_state \<Rightarrow> error + 'f branch" where
  "compute_step cfg L f st =
     (if bfgs_ind st = 0 then newton_update cfg L f st else bfgs_update cfg L f st)"

text \<open>
  What an iteration does to the loop: \<open>break\<close>, or fall through to the next iteration.
\<close>

datatype 'a flow = Break 'a | Next 'a

text \<open>
  The common tail of iteration \<open>i\<close>: the NaN test on the step, the update of the
  solution, the norms, the convergence check and the set-up of the next iteration.
  (The printing under \<open>verbose\<close> and the lists kept only for it are left out.)
\<close>

definition norms_of :: "nat \<Rightarrow> norms option \<Rightarrow> fl \<Rightarrow> fl \<Rightarrow> fl \<Rightarrow> error + norms" where
  "norms_of i old r e u =
     (if i = 0 then
        Inr \<lparr>r_curr = r, e_curr = PInf, u_curr = u, r0 = r, e0 = PInf, u0 = u\<rparr>
      else
        bindE (bound old) (\<lambda>t.
          Inr \<lparr>r_curr = r, e_curr = e, u_curr = u,
               r0 = r0 t, e0 = (if i = 1 then fabs e else e0 t), u0 = u0 t\<rparr>))"

definition check_norms :: "string list \<Rightarrow> solver_config \<Rightarrow> norms \<Rightarrow> error + bool" where
  "check_norms check_list cfg t =
     check_convg check_list (tol_dict cfg) (r_curr t) (e_curr t) (u_curr t)
       (fdiv (r_curr t) (r0 t)) (fdiv (e_curr t) (e0 t)) (fdiv (u_curr t) (u0 t))"

definition update_solution ::
  "solver_config \<Rightarrow> nat \<Rightarrow> 'f nsolve_state \<Rightarrow> vec \<Rightarrow> error + 'f nsolve_state flow" where
  "update_solution cfg i st d =
     (if isnan (np_sum d) then Inr (Break (st\<lparr>deltaX := Some d, no_nan_vals := False\<rparr>))
      else
        bindE (vadd (X st) d) (\<lambda>x'.
        bindE (dot d d) (\<lambda>uu.
        bindE (bound (R st)) (\<lambda>r.
        bindE (dot r (deltaXminus1 st)) (\<lambda>e.
        bindE (dot r r) (\<lambda>rr.
        bindE (norms_of i (tols st) (fsqrt rr) e (fsqrt uu)) (\<lambda>t.
        let st1 = st\<lparr>X := x', deltaX := Some d, tols := Some t\<rparr> in
        bindE (check_norms (stopping_tol cfg) cfg t) (\<lambda>converged.
          if converged then
            Inr (Break (st1\<lparr>sol := (sol st1)\<lparr>message := ''Converged'', success := True\<rparr>\<rparr>))
          else if reform_freq cfg = 0 then Inl ZeroDivisionError
          else
            Inr (Next (st1\<lparr>bfgs_ind := (bfgs_ind st1 + 1) mod reform_freq cfg,
                             Rminus1 := r, deltaXminus1 := d\<rparr>))))))))))"

definition nsolve_iter ::
  "solver_config \<Rightarrow> 'f linalg \<Rightarrow> resfun \<Rightarrow> nat \<Rightarrow> 'f nsolve_state
     \<Rightarrow> error + 'f nsolve_state flow" where
  "nsolve_iter cfg L f i st =
     bindE (compute_step cfg L f st) (\<lambda>b.
       case b of
         Nan_break st' \<Rightarrow> Inr (Break st')
       | Step st' d \<Rightarrow> update_solution cfg i st' d)"

text \<open>\<open>for i in range(max_iter)\<close>, from iteration \<open>i\<close> with \<open>n\<close> iterations left.\<close>

fun nsolve_loop ::
  "solver_config \<Rightarrow> 'f linalg \<Rightarrow> resfun \<Rightarrow> nat \<Rightarrow> nat \<Rightarrow> 'f nsolve_state
     \<Rightarrow> error + 'f nsolve_state" where
  "nsolve_loop cfg L f i 0 st = Inr st"
| "nsolve_loop cfg L f i (Suc n) st =
     (case nsolve_iter cfg L f i st of
        Inl e \<Rightarrow> Inl e
      | Inr (Break st') \<Rightarrow> Inr st'
      | Inr (Next st') \<Rightarrow> nsolve_loop cfg L f (Suc i) n st')"

text \<open>
  The clean-up after the loop: the second set of tolerances is tried only when no NaN was
  met and the stopping tolerances did not declare convergence.
\<close>

definition final_clean_up ::
  "solver_config \<Rightarrow> 'f nsolve_state \<Rightarrow> error + (vec \<times> vec \<times> mat \<times> sol_dict)" where
  "final_clean_up cfg st =
     bindE
       (if no_nan_vals st \<and> \<not> success (sol st) then
          bindE (bound (tols st)) (\<lambda>t.
          bindE (check_norms (accepting_tol cfg) cfg t) (\<lambda>converged.
            Inr (if converged then (sol st)\<lparr>message := ''Converged'', success := True\<rparr>
                 else sol st)))
        else Inr (sol st))
       (\<lambda>s. bindE (bound (R st)) (\<lambda>r. bindE (bound (dRdX st)) (\<lambda>j. Inr (X st, r, j, s))))"

text \<open>
  The configuration in force during the call: \<open>xtol\<close> is the argument, else the configured
  value, else \<open>1e-6*X0.shape[0]\<close>.
\<close>

definition call_config :: "solver_config \<Rightarrow> vec \<Rightarrow> fl option \<Rightarrow> solver_config" where
  "call_config cfg x0 xtol_arg =
     cfg\<lparr>xtol :=
       Some (case xtol_arg of
               Some t \<Rightarrow> t
             | None \<Rightarrow> (case xtol cfg of
                          Some t \<Rightarrow> t
                        | None \<Rightarrow> Fin (real (length x0) / 1000000)))\<rparr>"

definition initial_state :: "vec \<Rightarrow> 'f nsolve_state" where
  "initial_state x0 =
     \<lparr> X = x0, R = None, dRdX = None, deltaX = None,
       deltaXminus1 = replicate (length x0) NaN, Rminus1 = zeros (length x0),
       factored_data = None, bfgs_v = None, bfgs_w = None,
       bfgs_ind = 0, no_nan_vals = True, tols = None,
       sol = \<lparr>message = ''failed'', nfev = 0, njev = 0, success = False\<rparr> \<rparr>"

definition nsolve ::
  "solver_config \<Rightarrow> 'f linalg \<Rightarrow> resfun \<Rightarrow> vec \<Rightarrow> fl option
     \<Rightarrow> error + (vec \<times> vec \<times> mat \<times> sol_dict)" where
  "nsolve cfg0 L f x0 xtol_arg =
     (let cfg = call_config cfg0 x0 xtol_arg in
      if max_steps cfg + 1 < 0 then Inl ValueError
      else
        bindE (nsolve_loop cfg L f 0 (nat (max_steps cfg)) (initial_state x0))
          (final_clean_up cfg))"

subsection \<open>Notions used to state the properties of the solver\<close>

text \<open>A NaN appears in an array (for a matrix: in the concatenation of its rows).\<close>

definition has_nan :: "vec \<Rightarrow> bool" where
  "has_nan v = list_ex isnan v"

text \<open>
  The run of the loop up to the start of iteration \<open>k\<close>: \<open>Inr (Next st)\<close> when the iterations
  \<open>0, ..., k - 1\<close> all fell through to the next one and left the state \<open>st\<close>.
\<close>

fun iterate_to ::
  "solver_config \<Rightarrow> 'f linalg \<Rightarrow> resfun \<Rightarrow> nat \<Rightarrow> 'f nsolve_state
     \<Rightarrow> error + 'f nsolve_state flow" where
  "iterate_to cfg L f 0 st = Inr (Next st)"
| "iterate_to cfg L f (Suc k) st =
     (case iterate_to cfg L f k st of
        Inr (Next st') \<Rightarrow> nsolve_iter cfg L f k st'
      | r \<Rightarrow> r)"

text \<open>
  The convergence check as the documentation of the solver and of \<open>_check_convg\<close> describes
  it: \<open>xtol_rel\<close> is a tolerance on \<open>norm(dX)/norm(dX_step0)\<close>, \<open>etol_rel\<close> one on \<open>e/e0\<close>.
  Compared with the code in the properties below; no model of the code uses it.
\<close>

definition documented_error_dict ::
  "fl \<Rightarrow> fl \<Rightarrow> fl \<Rightarrow> fl \<Rightarrow> fl \<Rightarrow> fl \<Rightarrow> (string \<times> fl) list" where
  "documented_error_dict r_c e_c u_c r_rel e_rel u_rel =
     [(''xtol'', u_c),
      (''rtol'', r_c),
      (''etol'', e_c),
      (''xtol_rel'', u_rel),
      (''rtol_rel'', r_rel),
      (''etol_rel'', e_rel)]"

definition documented_check_convg :: "string list \<Rightarrow> (string \<Rightarrow> fl option option)
    \<Rightarrow> fl \<Rightarrow> fl \<Rightarrow> fl \<Rightarrow> fl \<Rightarrow> fl \<Rightarrow> fl \<Rightarrow> error + bool" where
  "documented_check_convg check_list tdict r_c e_c u_c r_rel e_rel u_rel =
     check_keys tdict (documented_error_dict r_c e_c u_c r_rel e_rel u_rel) False check_list"

subsection \<open>A one-dimensional test problem\<close>

text \<open>
  Linear algebra on one-by-one systems, and two residual functions of one unknown: the
  identity \<open>R(x) = x\<close> with Jacobian 1, and a residual that is 1 at \<open>x = 1\<close> and NaN elsewhere.
\<close>

definition scalar_linalg :: "mat linalg" where
  "scalar_linalg =
     \<lparr> lin_solve = (\<lambda>a b. Inr [fdiv (hd b) (hd (hd a))]),
       lin_factor = (\<lambda>a. Inr a),
       lin_factored_solve = (\<lambda>a b. Inr [fdiv (hd b) (hd (hd a))]) \<rparr>"

definition identity_residual :: resfun where
  "identity_residual x calc_grad = Inr (x, Some [[Fin 1]])"

definition nan_residual :: resfun where
  "nan_residual x calc_grad = Inr (if x = [Fin 1] then [Fin 1] else [NaN], Some [[Fin 1]])"

text \<open>
  Two configurations for the test problem, and the state in which iteration 1 of the solve
  of the NaN residual from \<open>x = 1\<close> starts.
\<close>

definition loose_accepting_config :: solver_config where
  "loose_accepting_config =
     default_solver_config\<lparr>max_steps := 3, accepting_tol := [''rtol''], rtol := Some (Fin 100)\<rparr>"

definition relative_step_config :: solver_config where
  "relative_step_config =
     default_solver_config\<lparr>max_steps := 3, stopping_tol := [''xtol_rel''],
                            xtol_rel := Some (Fin (1 / 2))\<rparr>"

definition nan_residual_state :: "mat nsolve_state" where
  "nan_residual_state =
     \<lparr> X = [Fin 0], R = Some [Fin 1], dRdX = Some [[Fin 1]], deltaX = Some [Fin (- 1)],
       deltaXminus1 = [Fin (- 1)], Rminus1 = [Fin 1],
       factored_data = Some [[Fin (- 1)]], bfgs_v = Some [], bfgs_w = Some [],
       bfgs_ind = 0, no_nan_vals = True,
       tols = Some \<lparr>r_curr = Fin 1, e_curr = PInf, u_curr = Fin 1,
                     r0 = Fin 1, e0 = PInf, u0 = Fin 1\<rparr>,
       sol = \<lparr>message = ''failed'', nfev = 1, njev = 1, success = False\<rparr> \<rparr>"

text \<open>
  An invariant of the states in which an iteration starts: the Jacobian is bound once a
  quasi-Newton iteration is due, and the result record still says \<open>failed\<close>.
\<close>

definition still_running :: "'f nsolve_state \<Rightarrow> bool" where
  "still_running st \<longleftrightarrow>
     (bfgs_ind st \<noteq> 0 \<longrightarrow> dRdX st \<noteq> None) \<and> \<not> success (sol st) \<and> message (sol st) = ''failed''"

section \<open>Harmonic utilities (harmonic_utils.py)\<close>

text \<open>
  The harmonic list \<open>h\<close> is an integer array; a matrix is the list of its rows.  No special
  floating-point value is tested in these functions, so their entries are reals.  The
  functions are modelled for arrays of the documented shapes: where numpy would broadcast an
  operand of another shape, the model raises \<open>ValueError\<close>.
\<close>

type_synonym rmat = "real list list"

definition ncols :: "'a list list \<Rightarrow> nat" where
  "ncols A = (case A of [] \<Rightarrow> 0 | r # _ \<Rightarrow> length r)"

definition has_shape :: "nat \<Rightarrow> nat \<Rightarrow> 'a list list \<Rightarrow> bool" where
  "has_shape m n A = (length A = m \<and> list_all (\<lambda>r. length r = n) A)"

definition rzeros :: "nat \<Rightarrow> nat \<Rightarrow> rmat" where
  "rzeros m n = replicate m (replicate n 0)"

definition mscale :: "real \<Rightarrow> rmat \<Rightarrow> rmat" where
  "mscale a A = map (map (\<lambda>x. a * x)) A"

definition madd :: "rmat \<Rightarrow> rmat \<Rightarrow> error + rmat" where
  "madd A B =
     (if length A = length B \<and> list_all2 (\<lambda>r s. length r = length s) A B
      then Inr (map2 (map2 (+)) A B) else Inl ValueError)"

subsection \<open>Nhc\<close>

definition Nhc :: "int list \<Rightarrow> error + nat" where
  "Nhc h =
     (if length (remdups h) \<noteq> length h
      then Inl (AssertionError ''Repeated Harmonics in h are not allowed.'')
      else Inr (2 * length (filter (\<lambda>k. k \<noteq> 0) h) + length (filter (\<lambda>k. k = 0) h)))"

subsection \<open>harmonic_stiffness\<close>

text \<open>
  The slice assignment \<open>E[r:r+nd, c:c+nd] = B\<close> for an \<open>nd\<close> by \<open>nd\<close> block \<open>B\<close>.  A slice
  that the array cuts short no longer has the shape of \<open>B\<close>, and the assignment fails.
\<close>

definition set_block :: "rmat \<Rightarrow> nat \<Rightarrow> nat \<Rightarrow> nat \<Rightarrow> rmat \<Rightarrow> error + rmat" where
  "set_block E r c nd B =
     (if r + nd \<le> length E \<and> list_all (\<lambda>row. c + nd \<le> length row) E \<and> has_shape nd nd B
      then Inr (map (\<lambda>i. if r \<le> i \<and> i < r + nd
                            then take c (E ! i) @ (B ! (i - r)) @ drop (c + nd) (E ! i)
                            else E ! i) [0..<length E])
      else Inl ValueError)"

text \<open>
  The body of the loop over \<open>hind\<close>, for the matrix \<open>E\<close> and for its derivative \<open>dEdw\<close>.
  \<open>k\<close> is \<open>h[hind]\<close> and \<open>b\<close> the block index \<open>hind*2 - zi\<close>.
\<close>

definition stiffness_blocks ::
  "rmat \<Rightarrow> rmat \<Rightarrow> rmat \<Rightarrow> real \<Rightarrow> bool \<Rightarrow> nat \<Rightarrow> int \<Rightarrow> nat \<Rightarrow> rmat \<Rightarrow> error + rmat" where
  "stiffness_blocks M C K w include_KM nd k b E =
     (let TR = mscale (1 * real_of_int k * w) C;
          BL = mscale (- 1 * real_of_int k * w) C
      in bindE (set_block E (nd * b) (nd * (b + 1)) nd TR) (\<lambda>E1.
         bindE (set_block E1 (nd * (b + 1)) (nd * b) nd BL) (\<lambda>E2.
           if include_KM then
             bindE (madd K (mscale (- 1 * (real_of_int k * w)\<^sup>2) M)) (\<lambda>TL.
             bindE (madd K (mscale (- 1 * (real_of_int k * w)\<^sup>2) M)) (\<lambda>BR.
             bindE (set_block E2 (nd * b) (nd * b) nd TL) (\<lambda>E3.
               set_block E3 (nd * (b + 1)) (nd * (b + 1)) nd BR)))
           else Inr E2)))"

definition gradient_blocks ::
  "rmat \<Rightarrow> rmat \<Rightarrow> real \<Rightarrow> bool \<Rightarrow> nat \<Rightarrow> int \<Rightarrow> nat \<Rightarrow> rmat \<Rightarrow> error + rmat" where
  "gradient_blocks M C w include_KM nd k b dEdw =
     (let TRdw = mscale (real_of_int k) C;
          BLdw = mscale (- 1 * real_of_int k) C
      in bindE (set_block dEdw (nd * b) (nd * (b + 1)) nd TRdw) (\<lambda>D1.
         bindE (set_block D1 (nd * (b + 1)) (nd * b) nd BLdw) (\<lambda>D2.
           if include_KM then
             (let TLdw = mscale (- 2 * w * (real_of_int k)\<^sup>2) M;
                  BRdw = mscale (- 2 * w * (real_of_int k)\<^sup>2) M
              in bindE (set_block D2 (nd * b) (nd * b) nd TLdw) (\<lambda>D3.
                   set_block D3 (nd * (b + 1)) (nd * (b + 1)) nd BRdw))
           else Inr D2)))"

text \<open>\<open>for hind in range(zi, h.shape[0])\<close>, over the list of the remaining indices.\<close>

fun stiffness_loop ::
  "rmat \<Rightarrow> rmat \<Rightarrow> rmat \<Rightarrow> real \<Rightarrow> int list \<Rightarrow> bool \<Rightarrow> bool \<Rightarrow> nat \<Rightarrow> nat \<Rightarrow> nat list
     \<Rightarrow> rmat \<times> rmat option \<Rightarrow> error + rmat \<times> rmat option" where
  "stiffness_loop M C K w h calc_grad include_KM nd zi [] acc = Inr acc"
| "stiffness_loop M C K w h calc_grad include_KM nd zi (hind # hinds) (E, dEdw) =
     bindE (stiffness_blocks M C K w include_KM nd (h ! hind) (hind * 2 - zi) E) (\<lambda>E'.
     bindE (case dEdw of
              None \<Rightarrow> Inr None
            | Some D \<Rightarrow> bindE (gradient_blocks M C w include_KM nd (h ! hind) (hind * 2 - zi) D)
                          (\<lambda>D'. Inr (Some D'))) (\<lambda>dEdw'.
       stiffness_loop M C K w h calc_grad include_KM nd zi hinds (E', dEdw')))"

text \<open>
  \<open>harmonic_stiffness\<close> returns \<open>(E, dEdw)\<close>, or \<open>(E,)\<close> when \<open>calc_grad\<close> is false: the second
  component is then \<open>None\<close>.
\<close>

definition harmonic_stiffness ::
  "rmat \<Rightarrow> rmat \<Rightarrow> rmat \<Rightarrow> real \<Rightarrow> int list \<Rightarrow> bool \<Rightarrow> bool \<Rightarrow> error + rmat \<times> rmat option" where
  "harmonic_stiffness M C K w h calc_grad only_C =
     (let nd = length C in
      bindE (Nhc h) (\<lambda>Nhc2.
        let E = rzeros (Nhc2 * nd) (Nhc2 * nd);
            dEdw = (if calc_grad then Some (rzeros (Nhc2 * nd) (Nhc2 * nd)) else None)
        in case h of
             [] \<Rightarrow> Inl IndexError
           | h0 # _ \<Rightarrow>
               (let zi = (if h0 = 0 then 1 else 0 :: nat);
                    include_KM = (\<not> only_C)
                in bindE (if zi = 1 \<and> include_KM then set_block E 0 0 nd K else Inr E) (\<lambda>E0.
                     stiffness_loop M C K w h calc_grad include_KM nd zi [zi..<length h]
                       (E0, dEdw)))))"

text \<open>
  For the statement of what \<open>harmonic_stiffness\<close> returns: the entry at \<open>(i, j)\<close> after the
  loop body has run for the harmonic \<open>k\<close> at block index \<open>b\<close>, given the entry \<open>old\<close> before.
\<close>

definition block_entry ::
  "rmat \<Rightarrow> rmat \<Rightarrow> rmat \<Rightarrow> real \<Rightarrow> bool \<Rightarrow> nat \<Rightarrow> int \<Rightarrow> nat \<Rightarrow> real \<Rightarrow> nat \<Rightarrow> nat \<Rightarrow> real" where
  "block_entry M C K w include_KM nd k b old i j =
     (if i div nd = b \<and> j div nd = b + 1 then real_of_int k * w * C ! (i mod nd) ! (j mod nd)
      else if i div nd = b + 1 \<and> j div nd = b then - (real_of_int k * w) * C ! (i mod nd) ! (j mod nd)
      else if include_KM \<and> i div nd = j div nd \<and> (i div nd = b \<or> i div nd = b + 1)
        then K ! (i mod nd) ! (j mod nd) - (real_of_int k * w)\<^sup>2 * M ! (i mod nd) ! (j mod nd)
      else old)"

text \<open>The same for the whole loop: the loop body composed over the indices \<open>hinds\<close>.\<close>

fun loop_entry ::
  "rmat \<Rightarrow> rmat \<Rightarrow> rmat \<Rightarrow> real \<Rightarrow> int list \<Rightarrow> bool \<Rightarrow> nat \<Rightarrow> nat \<Rightarrow> nat list \<Rightarrow> real \<Rightarrow> nat \<Rightarrow> nat
     \<Rightarrow> real" where
  "loop_entry M C K w h include_KM nd zi [] old i j = old"
| "loop_entry M C K w h include_KM nd zi (hind # hinds) old i j =
     loop_entry M C K w h include_KM nd zi hinds
       (block_entry M C K w include_KM nd (h ! hind) (hind * 2 - zi) old i j) i j"

subsection \<open>time_series_deriv\<close>








definition matmul :: "rmat \<Rightarrow> rmat \<Rightarrow> error + rmat" where
  "matmul A B =
     (if list_all (\<lambda>row. length row = length B) A
      then Inr (map (\<lambda>row. map (\<lambda>j. \<Sum>k<length B. row ! k * B ! k ! j) [0..<ncols B]) A)
      else Inl ValueError)"








section \<open>Continuation (continuation.py)\<close>

subsection \<open>Further array operations\<close>

definition feq :: "fl \<Rightarrow> fl \<Rightarrow> bool" where
  "feq a b = (\<not> isnan a \<and> \<not> isnan b \<and> a = b)"

definition sq :: "fl \<Rightarrow> fl" where
  "sq x = fmul x x"

text \<open>\<open>np.linalg.norm\<close> of a one-dimensional array.\<close>

definition norm2 :: "vec \<Rightarrow> fl" where
  "norm2 v = fsqrt (np_sum (map sq v))"

fun np_sign :: "fl \<Rightarrow> fl" where
  "np_sign (Fin x) = Fin (sgn x)"
| "np_sign PInf = Fin 1"
| "np_sign MInf = Fin (- 1)"
| "np_sign NaN = NaN"

text \<open>\<open>v[-1]\<close>; \<open>v[:-1]\<close> is \<open>butlast v\<close>.\<close>

definition py_last :: "'a list \<Rightarrow> error + 'a" where
  "py_last v = (if v = [] then Inl IndexError else Inr (last v))"

text \<open>\<open>np.maximum\<close> and \<open>np.abs\<close> on arrays, \<open>np.max\<close> of an array, \<open>np.diag\<close> of a matrix.\<close>

definition np_maximum :: "vec \<Rightarrow> vec \<Rightarrow> error + vec" where
  "np_maximum = vzip np_maximum1"

definition np_abs :: "vec \<Rightarrow> vec" where
  "np_abs v = map fabs v"

definition np_amax :: "vec \<Rightarrow> error + fl" where
  "np_amax v = (case v of [] \<Rightarrow> Inl ValueError | x # xs \<Rightarrow> Inr (foldl np_maximum1 x xs))"

definition np_diag :: "mat \<Rightarrow> vec" where
  "np_diag A = map (\<lambda>i. A ! i ! i) [0..<min (length A) (ncols A)]"

text \<open>
  \<open>dRdXP*CtoP[:-1]\<close> scales the columns of the matrix; \<open>hstack\<close> appends a column, \<open>vstack\<close> a
  row.
\<close>

fun mapE :: "('a \<Rightarrow> error + 'b) \<Rightarrow> 'a list \<Rightarrow> error + 'b list" where
  "mapE g [] = Inr []"
| "mapE g (x # xs) = bindE (g x) (\<lambda>y. bindE (mapE g xs) (\<lambda>ys. Inr (y # ys)))"

definition scale_columns :: "mat \<Rightarrow> vec \<Rightarrow> error + mat" where
  "scale_columns A v = mapE (\<lambda>row. vmul row v) A"

definition hstack_column :: "mat \<Rightarrow> vec \<Rightarrow> error + mat" where
  "hstack_column A col =
     (if length A = length col then Inr (map2 (\<lambda>row x. row @ [x]) A col) else Inl ValueError)"

definition vstack_row :: "mat \<Rightarrow> vec \<Rightarrow> error + mat" where
  "vstack_row A row =
     (if list_all (\<lambda>r. length r = length row) A then Inr (A @ [row]) else Inl ValueError)"

subsection \<open>The object and its configuration\<close>

text \<open>
  The solver handed to \<open>Continuation\<close> is any object with the methods \<open>nsolve\<close>, \<open>lin_solve\<close>
  and \<open>conditioning_wrapper\<close>; the last one is inherited from a base class that is not part
  of the modelled sources.  The methods are the fields of a record.  \<open>nsolve\<close> is given the
  function, the initial guess and \<open>xtol\<close>.
\<close>

type_synonym nsolve_result = "vec \<times> vec \<times> mat \<times> sol_dict"

record solver =
  solver_nsolve :: "resfun \<Rightarrow> vec \<Rightarrow> fl option \<Rightarrow> error + nsolve_result"
  solver_lin_solve :: "mat \<Rightarrow> vec \<Rightarrow> error + vec"
  solver_conditioning_wrapper :: "resfun \<Rightarrow> vec \<Rightarrow> vec \<Rightarrow> resfun"


text \<open>
  The function that continuation follows returns \<open>(R, dRdX, dRdlam)\<close>, or a tuple that
  starts with \<open>R\<close> when it is called with \<open>calc_grad=False\<close>.
\<close>

type_synonym cont_fun = "vec \<Rightarrow> bool option \<Rightarrow> error + (vec \<times> (mat \<times> vec) option)"

definition unpack3 :: "vec \<times> (mat \<times> vec) option \<Rightarrow> error + (vec \<times> mat \<times> vec)" where
  "unpack3 t = (case t of (r, Some (j, l)) \<Rightarrow> Inr (r, j, l) | (r, None) \<Rightarrow> Inl ValueError)"

text \<open>
  Python lists are objects: the store maps an address to the list that lives there, and a
  dictionary entry for \<open>FracLamList\<close> holds an address.
\<close>

type_synonym heap = "fl list list"

text \<open>
  The dictionary \<open>config\<close> passed by the caller (an entry that is absent is \<open>None\<close>) and the
  dictionary \<open>self.config\<close> with every key set.  \<open>callback\<close> records whether a callback
  function is configured.  The key \<open>CtoPsave\<close>, a file name, is left out.
\<close>

record user_config =
  u_FracLam :: "fl option"
  u_ds0 :: "fl option"
  u_dsmax :: "fl option"
  u_dsmin :: "fl option"
  u_MaxSteps :: "int option"
  u_TargetNfev :: "int option"
  u_DynamicCtoP :: "bool option"
  u_verbose :: "int option"
  u_xtol :: "fl option"
  u_corrector :: "string option"
  u_FracLamList :: "nat option"
  u_backtrackStop :: "fl option"
  u_MaxIncrease :: "fl option"
  u_nsolve_verbose :: "bool option"
  u_callback :: "bool option"

definition empty_user_config :: user_config where
  "empty_user_config =
     \<lparr> u_FracLam = None, u_ds0 = None, u_dsmax = None, u_dsmin = None, u_MaxSteps = None,
       u_TargetNfev = None, u_DynamicCtoP = None, u_verbose = None, u_xtol = None,
       u_corrector = None, u_FracLamList = None, u_backtrackStop = None,
       u_MaxIncrease = None, u_nsolve_verbose = None, u_callback = None \<rparr>"

record cont_config =
  FracLam :: fl
  ds0 :: fl
  dsmax :: fl
  dsmin :: fl
  MaxSteps :: int
  TargetNfev :: int
  DynamicCtoP :: bool
  verbose_c :: int
  xtol_c :: "fl option"
  corrector :: string
  FracLamList :: nat
  backtrackStop :: fl
  MaxIncrease :: fl
  nsolve_verbose :: bool
  callback :: bool

text \<open>\<open>self.RPtoC\<close> is a scalar or an array.\<close>

datatype rptoc = Scalar fl | Vector vec

record continuation =
  solver :: solver
  setCtoPto1 :: bool
  CtoP :: "vec option"
  RPtoC :: rptoc
  setRPtoCto1 :: bool
  config :: cont_config
  CtoP0 :: "vec option"

definition dflt :: "'a \<Rightarrow> 'a option \<Rightarrow> 'a" where
  "dflt d v = (case v of None \<Rightarrow> d | Some x \<Rightarrow> x)"

subsection \<open>The constructor\<close>

text \<open>
  \<open>Continuation.__init__(solver, ds0, CtoP, RPtoC, config)\<close> on the store \<open>hp\<close>.  The list
  literal of \<open>default_config\<close> is a new object at the first free address; the loop over
  \<open>config.keys()\<close> then stores the caller's own objects in \<open>default_config\<close>, so that
  \<open>default_config['FracLamList']\<close> is the caller's list when the caller passed one, and
  \<open>insert(0, ...)\<close> changes that list in the store.
\<close>

definition default_config :: "fl \<Rightarrow> nat \<Rightarrow> user_config \<Rightarrow> cont_config" where
  "default_config ds0_arg fresh u =
     \<lparr> FracLam = dflt (Fin (1 / 2)) (u_FracLam u),
       ds0 = dflt ds0_arg (u_ds0 u),
       dsmax = dflt (fmul (Fin 5) ds0_arg) (u_dsmax u),
       dsmin = dflt (fdiv ds0_arg (Fin 5)) (u_dsmin u),
       MaxSteps = dflt 500 (u_MaxSteps u),
       TargetNfev = dflt 20 (u_TargetNfev u),
       DynamicCtoP = dflt False (u_DynamicCtoP u),
       verbose_c = dflt 100 (u_verbose u),
       xtol_c = u_xtol u,
       corrector = dflt ''Ortho'' (u_corrector u),
       FracLamList = dflt fresh (u_FracLamList u),
       backtrackStop = dflt PInf (u_backtrackStop u),
       MaxIncrease = dflt (Fin (12 / 10)) (u_MaxIncrease u),
       nsolve_verbose = dflt False (u_nsolve_verbose u),
       callback = dflt False (u_callback u) \<rparr>"

definition Continuation_init ::
  "heap \<Rightarrow> solver \<Rightarrow> fl \<Rightarrow> vec option \<Rightarrow> rptoc option \<Rightarrow> user_config \<Rightarrow> heap \<times> continuation" where
  "Continuation_init hp slv ds0_arg CtoP_arg RPtoC_arg u =
     (let hp1 = hp @ [[]];
          cfg = default_config ds0_arg (length hp) u;
          a = FracLamList cfg;
          lst = hp1 ! a;
          hp2 = (if length lst = 0 \<or> \<not> feq (lst ! 0) (FracLam cfg)
                 then hp1[a := FracLam cfg # lst]
                 else hp1)
      in (hp2,
          \<lparr> solver = slv,
            setCtoPto1 = (CtoP_arg = None),
            CtoP = map_option np_abs CtoP_arg,
            RPtoC = dflt (Scalar (Fin 1)) RPtoC_arg,
            setRPtoCto1 = (RPtoC_arg = None),
            config = cfg,
            CtoP0 = None \<rparr>))"

subsection \<open>predict\<close>

definition attr :: "'a option \<Rightarrow> error + 'a" where
  "attr v = (case v of None \<Rightarrow> Inl AttributeError | Some x \<Rightarrow> Inr x)"

text \<open>The conditioned-space gradient \<open>hstack((dRdXP*CtoP[:-1], atleast_2d(dRdlamP).T*CtoP[-1]))\<close>.\<close>

definition conditioned_gradient :: "mat \<Rightarrow> vec \<Rightarrow> vec \<Rightarrow> error + mat" where
  "conditioned_gradient dRdXP dRdlamP ctop =
     bindE (scale_columns dRdXP (butlast ctop)) (\<lambda>A.
     bindE (py_last ctop) (\<lambda>ctop_lam.
       hstack_column A (map (\<lambda>x. fmul x ctop_lam) dRdlamP)))"

definition np_mean :: "rptoc \<Rightarrow> fl" where
  "np_mean a = (case a of Scalar s \<Rightarrow> s | Vector v \<Rightarrow> fdiv (np_sum v) (Fin (real (length v))))"

definition predict ::
  "continuation \<Rightarrow> cont_fun \<Rightarrow> vec \<Rightarrow> vec \<Rightarrow> vec \<Rightarrow> error + (vec \<times> continuation)" where
  "predict self f XlamP0 XlamPprev dirC_prev =
     bindE (bindE (f XlamP0 None) unpack3) (\<lambda>(r, dRdXP, dRdlamP).
     bindE (attr (CtoP self)) (\<lambda>ctop.
     bindE (conditioned_gradient dRdXP dRdlamP ctop) (\<lambda>G.
     bindE (vstack_row G dirC_prev) (\<lambda>dRdXlamC.
     let predictR = (zeros (length r + 1))[length r := Fin 1] in
     bindE (solver_lin_solve (solver self) dRdXlamC predictR) (\<lambda>dirC0.
     let b = FracLam (config self) in
     bindE (vdiv (butlast XlamP0) (butlast ctop)) (\<lambda>XC0.
     let c = fdiv (fsub (Fin 1) b) (sq (norm2 XC0)) in
     bindE (py_last dirC0) (\<lambda>dlam0.
     let step_sq = fadd (fmul c (sq (norm2 (butlast dirC0)))) (fmul b (sq dlam0));
         dirC1 = vdivs dirC0 (fsqrt step_sq)
     in
     bindE (vsub XlamP0 XlamPprev) (\<lambda>dP.
     bindE (vdiv dP ctop) (\<lambda>dXlamCprev.
     bindE (dot (vscale c (butlast dirC1)) (butlast dXlamCprev)) (\<lambda>s1.
     bindE (py_last dirC1) (\<lambda>dlam1.
     bindE (py_last dXlamCprev) (\<lambda>dlamprev.
     let signarg = fadd s1 (fmul (fmul b dlam1) dlamprev);
         sign0 = np_sign signarg;
         sign = (if feq sign0 (Fin 0) then Fin 1 else sign0);
         dirC2 = map (\<lambda>x. fmul x sign) dirC1
     in
     bindE (if DynamicCtoP (config self)
            then bindE (np_amax (np_abs (butlast (np_diag dRdXlamC)))) (\<lambda>m.
                   Inr (Scalar (fdiv (Fin 1) m)))
            else Inr (Scalar (np_mean (RPtoC self)))) (\<lambda>rp.
       Inr (dirC2, self\<lparr>RPtoC := rp\<rparr>))))))))))))))"

subsection \<open>The corrector residual\<close>

definition pseudo_arc_res :: "vec \<Rightarrow> vec \<Rightarrow> fl \<Rightarrow> fl \<Rightarrow> fl \<Rightarrow> error + (fl \<times> vec)" where
  "pseudo_arc_res XlamC XlamC0 ds b c =
     bindE (py_last XlamC) (\<lambda>l.
     bindE (py_last XlamC0) (\<lambda>l0.
     let dlamC = fsub l l0 in
     bindE (vsub (butlast XlamC) (butlast XlamC0)) (\<lambda>dXC.
     let dstep_sq = fadd (fmul c (sq (norm2 dXC))) (fmul b (sq dlamC));
         dstep_sq_dXC = map (\<lambda>x. fmul (fmul (Fin 2) c) x) dXC;
         dstep_sq_dlamC = fmul (fmul (Fin 2) b) dlamC;
         Rarc = fdiv (fsub dstep_sq (sq ds)) (sq ds);
         dRarcdXlamC = vdivs (dstep_sq_dXC @ [dstep_sq_dlamC]) (sq ds)
     in Inr (Rarc, dRarcdXlamC))))"

definition orthogonal_arc_res :: "vec \<Rightarrow> vec \<Rightarrow> vec \<Rightarrow> fl \<Rightarrow> fl \<Rightarrow> fl \<Rightarrow> error + (fl \<times> vec)" where
  "orthogonal_arc_res XlamC XlamC0 dirC ds b c =
     bindE (vadd XlamC0 (map (\<lambda>x. fmul x ds) dirC)) (\<lambda>pred.
     bindE (vsub XlamC pred) (\<lambda>dXlamC.
     bindE (dot (butlast dXlamC) (butlast dirC)) (\<lambda>s.
     bindE (py_last dXlamC) (\<lambda>dl.
     bindE (py_last dirC) (\<lambda>dirl.
     let Rarc = fdiv (fadd (fmul c s) (fmul (fmul b dl) dirl)) ds;
         dRarcdXlamC = vdivs (vscale c (butlast dirC) @ [fmul b dirl]) ds
     in Inr (Rarc, dRarcdXlamC))))))"

text \<open>\<open>str.upper()\<close> on the letters of ASCII.\<close>

definition upper_char :: "char \<Rightarrow> char" where
  "upper_char ch =
     (let n = (of_char ch :: nat) in if 97 \<le> n \<and> n \<le> 122 then char_of (n - 32) else ch)"

definition upper :: "string \<Rightarrow> string" where
  "upper str = map upper_char str"

text \<open>\<open>self.RPtoC*R\<close> and \<open>self.RPtoC*dRdXlamC\<close>.\<close>

definition rptoc_times :: "rptoc \<Rightarrow> vec \<Rightarrow> error + vec" where
  "rptoc_times a v = (case a of Scalar s \<Rightarrow> Inr (vscale s v) | Vector u \<Rightarrow> vmul u v)"

definition correct_res ::
  "continuation \<Rightarrow> cont_fun \<Rightarrow> vec \<Rightarrow> vec \<Rightarrow> fl \<Rightarrow> vec option \<Rightarrow> bool
     \<Rightarrow> error + (vec \<times> mat option)" where
  "correct_res self f XlamC XlamC0 ds dirC calc_grad =
     bindE (attr (CtoP self)) (\<lambda>ctop.
     bindE (vmul XlamC ctop) (\<lambda>XlamP.
     bindE (if calc_grad then
              bindE (bindE (f XlamP None) unpack3) (\<lambda>(r, dRdXP, dRdlamP).
              bindE (conditioned_gradient dRdXP dRdlamP ctop) (\<lambda>G. Inr (r, Some G)))
            else
              bindE (f XlamP (Some calc_grad)) (\<lambda>(r, _). Inr (r, None))) (\<lambda>(r, dRdXlamC).
     let b = FracLam (config self);
         c = fdiv (fsub (Fin 1) b) (sq (norm2 (butlast XlamC0)))
     in
     bindE (if upper (corrector (config self)) = ''PSEUDO'' then
              pseudo_arc_res XlamC XlamC0 ds b c
            else if upper (corrector (config self)) = ''ORTHO'' then
              (case dirC of
                 None \<Rightarrow> Inl (AssertionError ''In proper call, need dirC for ortho corrector.'')
               | Some d \<Rightarrow> orthogonal_arc_res XlamC XlamC0 d ds b c)
            else
              Inl (AssertionError (''Invalid corrector type: '' @ upper (corrector (config self)))))
       (\<lambda>(Rarc, dRarcdXlamC).
     bindE (rptoc_times (RPtoC self) r) (\<lambda>rs.
     let Raug = rs @ [Rarc] in
     case dRdXlamC of
       None \<Rightarrow> Inr (Raug, None)
     | Some G \<Rightarrow>
         bindE (mapE (rptoc_times (RPtoC self)) G) (\<lambda>Gs.
         bindE (vstack_row Gs dRarcdXlamC) (\<lambda>dRaugdXlamC.
           Inr (Raug, Some dRaugdXlamC))))))))"

subsection \<open>The continuation run\<close>

text \<open>\<open>_initial_wrapper_fun\<close> under \<open>fun0 = lambda X, calc_grad=True: ...\<close>.\<close>

definition initial_wrapper_fun :: "cont_fun \<Rightarrow> fl \<Rightarrow> resfun" where
  "initial_wrapper_fun f lam0 x calc_grad =
     (if dflt True calc_grad
      then bindE (f (x @ [lam0]) None) (\<lambda>(r, g). Inr (r, map_option fst g))
      else bindE (f (x @ [lam0]) (Some False)) (\<lambda>(r, g). Inr (r, None)))"

text \<open>
  The local variables of \<open>continuation\<close> and the object, as the step loop changes them.
  \<open>XlamP_full\<close> holds the rows filled so far, \<open>XlamC\<close> and \<open>sol_c\<close> what the last call of
  \<open>nsolve\<close> returned, and \<open>calls\<close> the arguments of the calls of the callback, in order.
\<close>

record cont_state =
  self :: continuation
  XlamP_full :: "vec list"
  XlamP0 :: vec
  XlamPprev :: vec
  dirC :: vec
  ds :: fl
  XlamC :: "vec option"
  sol_c :: sol_dict
  calls :: "(vec \<times> vec) list"

text \<open>
  One corrector solve with step size \<open>ds'\<close>:
  \<open>nsolve(correct_fun, XlamP0/self.CtoP + dirC*ds, xtol=...)\<close>.  The lambda \<open>correct_fun\<close>
  reads \<open>ds\<close> and \<open>dirC\<close> when it is called, so a retry with a smaller \<open>ds\<close> solves the
  corrector equation of that smaller step.
\<close>

definition correct_fun :: "continuation \<Rightarrow> cont_fun \<Rightarrow> vec \<Rightarrow> vec \<Rightarrow> fl \<Rightarrow> resfun" where
  "correct_fun slf f XP0 d ds' XC calc_grad =
     bindE (attr (CtoP slf)) (\<lambda>ctop.
     bindE (vdiv XP0 ctop) (\<lambda>XC0.
       correct_res slf f XC XC0 ds' (Some d) (dflt True calc_grad)))"

definition solve_corrector ::
  "continuation \<Rightarrow> cont_fun \<Rightarrow> vec \<Rightarrow> vec \<Rightarrow> fl \<Rightarrow> error + nsolve_result" where
  "solve_corrector slf f XP0 d ds' =
     bindE (attr (CtoP slf)) (\<lambda>ctop.
     bindE (vdiv XP0 ctop) (\<lambda>XC0.
     bindE (vadd XC0 (map (\<lambda>x. fmul x ds') d)) (\<lambda>guess.
       solver_nsolve (solver slf) (correct_fun slf f XP0 d ds') guess (xtol_c (config slf)))))"

text \<open>
  \<open>while (not sol['success']) and ds > self.config['dsmin']\<close>: halve the step, not below
  \<open>dsmin\<close>, and correct again.  \<open>attempt\<close> is the corrector solve as a function of the step
  size.  Over the reals the loop need not end (for instance with \<open>dsmin = 0\<close> and a solver
  that always fails); not returning is the value \<open>None\<close>.
\<close>

partial_function (option) retry_smaller_steps ::
  "(fl \<Rightarrow> error + nsolve_result) \<Rightarrow> fl \<Rightarrow> fl \<Rightarrow> nsolve_result \<Rightarrow> (error + fl \<times> nsolve_result) option"
  where
  "retry_smaller_steps attempt ds_min ds_cur res =
     (if \<not> success (snd (snd (snd res))) \<and> fgt ds_cur ds_min then
        (let ds' = py_max (fdiv ds_cur (Fin 2)) ds_min in
         case attempt ds' of
           Inl e \<Rightarrow> Some (Inl e)
         | Inr res' \<Rightarrow> retry_smaller_steps attempt ds_min ds' res')
      else Some (Inr (ds_cur, res)))"

text \<open>
  \<open>for fracLam_ind in range(len(self.config['FracLamList']))\<close>, over the values that are
  left: set \<open>FracLam\<close>, predict, correct, retry with smaller steps, and leave the loop when
  the corrector has converged.  The step size that the retries have reached stays in \<open>ds\<close>
  for the next value.
\<close>

fun fraclam_loop :: "cont_fun \<Rightarrow> fl list \<Rightarrow> cont_state \<Rightarrow> (error + cont_state) option" where
  "fraclam_loop f [] st = Some (Inr st)"
| "fraclam_loop f (flam # flams) st =
     (let self1 = (self st)\<lparr>config := (config (self st))\<lparr>FracLam := flam\<rparr>\<rparr> in
      case predict self1 f (XlamP0 st) (XlamPprev st) (dirC st) of
        Inl e \<Rightarrow> Some (Inl e)
      | Inr (d, self2) \<Rightarrow>
          (case solve_corrector self2 f (XlamP0 st) d (ds st) of
             Inl e \<Rightarrow> Some (Inl e)
           | Inr res \<Rightarrow>
               (case retry_smaller_steps (solve_corrector self2 f (XlamP0 st) d)
                       (dsmin (config self2)) (ds st) res of
                  None \<Rightarrow> None
                | Some (Inl e) \<Rightarrow> Some (Inl e)
                | Some (Inr (ds', (xc, _, _, s))) \<Rightarrow>
                    (let st' = st\<lparr>self := self2, dirC := d, ds := ds', XlamC := Some xc,
                                   sol_c := s\<rparr>
                     in if success s then Some (Inr st') else fraclam_loop f flams st'))))"

text \<open>\<open>np.maximum(np.abs(XlamP_full[step-1]), self.CtoP0)\<close>.\<close>

definition dynamic_CtoP :: "vec \<Rightarrow> vec \<Rightarrow> error + vec" where
  "dynamic_CtoP point floor_CtoP = np_maximum (np_abs point) floor_CtoP"

text \<open>
  The body of the step loop.  \<open>silent\<close> is \<open>verbose < 0\<close> as read at the start of the run;
  the test after the ladder is \<open>if(not sol['success'] and not silent): ... break\<close>.
\<close>

definition continuation_step ::
  "heap \<Rightarrow> cont_fun \<Rightarrow> bool \<Rightarrow> cont_state \<Rightarrow> (error + cont_state flow) option" where
  "continuation_step hp f silent st =
     (case (if DynamicCtoP (config (self st))
            then bindE (attr (CtoP0 (self st))) (\<lambda>floor_CtoP.
                 bindE (py_last (XlamP_full st)) (\<lambda>point.
                 bindE (dynamic_CtoP point floor_CtoP) (\<lambda>c.
                   Inr (st\<lparr>self := (self st)\<lparr>CtoP := Some c\<rparr>\<rparr>))))
            else Inr st) of
        Inl e \<Rightarrow> Some (Inl e)
      | Inr st1 \<Rightarrow>
          (case fraclam_loop f (hp ! FracLamList (config (self st1))) st1 of
             None \<Rightarrow> None
           | Some (Inl e) \<Rightarrow> Some (Inl e)
           | Some (Inr st2) \<Rightarrow>
               if \<not> success (sol_c st2) \<and> \<not> silent then Some (Inr (Break st2))
               else
                 Some (
                 bindE (attr (CtoP (self st2))) (\<lambda>ctop.
                 bindE (bound (XlamC st2)) (\<lambda>xc.
                 bindE (vmul ctop xc) (\<lambda>point.
                 if length point \<noteq> length (hd (XlamP_full st2)) then Inl ValueError
                 else if nfev (sol_c st2) = 0 then Inl ZeroDivisionError
                 else
                   let cfg = config (self st2);
                       ds1 = fmul (ds st2)
                               (py_min (fdiv (Fin (real_of_int (TargetNfev cfg)))
                                             (Fin (real (nfev (sol_c st2)))))
                                       (MaxIncrease cfg));
                       ds2 = py_min (py_max ds1 (dsmin cfg)) (dsmax cfg)
                   in
                   bindE (if callback cfg
                          then bindE (vmul (dirC st2) ctop) (\<lambda>dirP.
                                 Inr (calls st2 @ [(point, dirP)]))
                          else Inr (calls st2)) (\<lambda>log.
                     Inr (Next (st2\<lparr>XlamP_full := XlamP_full st2 @ [point],
                                     ds := ds2,
                                     calls := log,
                                     XlamPprev := XlamP0 st2,
                                     XlamP0 := point\<rparr>)))))))))"

text \<open>
  The condition of the step loop apart from \<open>step < MaxSteps\<close>, on the \<open>lam\<close> of the last
  stored point.
\<close>

definition in_range :: "fl \<Rightarrow> fl \<Rightarrow> fl \<Rightarrow> fl \<Rightarrow> fl \<Rightarrow> bool" where
  "in_range direct lam0 lam1 backtrack lam =
     (flt (fmul direct lam) (fmul direct lam1)
      \<and> fgt (fmul direct lam) (fmul direct (fsub lam0 (fmul direct backtrack))))"

text \<open>
  The step loop with \<open>n\<close> steps left before \<open>step\<close> reaches \<open>MaxSteps\<close> (\<open>step\<close> is the
  number of rows of \<open>XlamP_full\<close> filled so far, and goes up by one in every pass).
\<close>

fun continuation_loop ::
  "heap \<Rightarrow> cont_fun \<Rightarrow> bool \<Rightarrow> fl \<Rightarrow> fl \<Rightarrow> fl \<Rightarrow> nat \<Rightarrow> cont_state \<Rightarrow> (error + cont_state) option"
  where
  "continuation_loop hp f silent direct lam0 lam1 0 st = Some (Inr st)"
| "continuation_loop hp f silent direct lam0 lam1 (Suc n) st =
     (case bindE (py_last (XlamP_full st)) py_last of
        Inl e \<Rightarrow> Some (Inl e)
      | Inr lam \<Rightarrow>
          if in_range direct lam0 lam1 (backtrackStop (config (self st))) lam then
            (case continuation_step hp f silent st of
               None \<Rightarrow> None
             | Some (Inl e) \<Rightarrow> Some (Inl e)
             | Some (Inr (Break st')) \<Rightarrow> Some (Inr st')
             | Some (Inr (Next st')) \<Rightarrow> continuation_loop hp f silent direct lam0 lam1 n st')
          else Some (Inr st))"

text \<open>\<open>self.RPtoC\<close> as an array of the length of \<open>XlamP0\<close> for the initial solve.\<close>

definition initial_RPtoC :: "continuation \<Rightarrow> nat \<Rightarrow> vec" where
  "initial_RPtoC slf n =
     (if setRPtoCto1 slf then replicate n (Fin 1)
      else case RPtoC slf of
             Scalar s \<Rightarrow> replicate n s
           | Vector v \<Rightarrow> (if length v = 1 then replicate n (hd v) else v))"

text \<open>
  The start of \<open>continuation\<close>: the object with \<open>verbose\<close>, \<open>CtoP\<close> and \<open>RPtoC\<close> set up for
  the initial solve.
\<close>

definition prepare_object :: "continuation \<Rightarrow> nat \<Rightarrow> continuation" where
  "prepare_object slf0 n =
     (let slf1 = (if verbose_c (config slf0) < 0
                  then slf0\<lparr>config := (config slf0)\<lparr>verbose_c := 0\<rparr>\<rparr> else slf0);
          slf2 = (if setCtoPto1 slf1 then slf1\<lparr>CtoP := Some (replicate n (Fin 1))\<rparr> else slf1)
      in slf2\<lparr>RPtoC := Vector (initial_RPtoC slf2 n)\<rparr>)"

text \<open>
  The solve at the initial point, with \<open>lam\<close> fixed at \<open>lam0\<close>:
  \<open>self.solver.nsolve(fun0_cond, XlamP0[:-1]/self.CtoP[:-1], xtol=...)\<close>.
\<close>

definition initial_solve :: "continuation \<Rightarrow> cont_fun \<Rightarrow> vec \<Rightarrow> fl \<Rightarrow> error + nsolve_result" where
  "initial_solve slf f XlamP0_arg lam0 =
     bindE (attr (CtoP slf)) (\<lambda>ctop.
     bindE (case RPtoC slf of Vector v \<Rightarrow> Inr v | Scalar _ \<Rightarrow> Inl IndexError) (\<lambda>rp.
     let fun0_cond = solver_conditioning_wrapper (solver slf) (initial_wrapper_fun f lam0)
                       (butlast ctop) (butlast rp)
     in
     bindE (vdiv (butlast XlamP0_arg) (butlast ctop)) (\<lambda>guess.
       solver_nsolve (solver slf) fun0_cond guess (xtol_c (config slf)))))"

text \<open>
  From the result of the initial solve to the state in which the step loop starts (with
  the direction of travel \<open>direct\<close>), or the assertion that the initial point failed.
\<close>

definition first_point ::
  "continuation \<Rightarrow> vec \<Rightarrow> fl \<Rightarrow> fl \<Rightarrow> nsolve_result \<Rightarrow> error + fl \<times> cont_state" where
  "first_point slf XlamP0_arg lam0 lam1 res =
     (case res of (Xc, _, _, s) \<Rightarrow>
        bindE (attr (CtoP slf)) (\<lambda>ctop.
        bindE (vmul Xc (butlast ctop)) (\<lambda>x.
        if \<not> success s
        then Inl (AssertionError
                   ''Failed to converge to initial point, give a better initial guess.'')
        else
          let log = (if callback (config slf)
                     then [(x @ [lam0], map (\<lambda>v. fmul v NaN) (x @ [lam0]))] else []);
              direct = np_sign (fsub lam1 lam0);
              prev = x @ [fsub lam0 direct];
              p0 = x @ [lam0]
          in
          if MaxSteps (config slf) = 0 then Inl IndexError
          else if length p0 \<noteq> length XlamP0_arg then Inl ValueError
          else
            bindE (vsub p0 prev) (\<lambda>d.
              Inr (direct,
                   \<lparr> self = (if DynamicCtoP (config slf) then slf\<lparr>CtoP0 := CtoP slf\<rparr> else slf),
                     XlamP_full = [p0], XlamP0 = p0, XlamPprev = prev, dirC = d,
                     ds = ds0 (config slf), XlamC = None, sol_c = s, calls = log \<rparr>)))))"

text \<open>The last call of the callback, after the step loop.\<close>

definition final_callback ::
  "cont_fun \<Rightarrow> cont_state \<Rightarrow> error + vec list \<times> continuation \<times> (vec \<times> vec) list" where
  "final_callback f st =
     bindE (if callback (config (self st)) then
              bindE (if \<not> success (sol_c st) then Inr (dirC st, self st)
                     else predict (self st) f (XlamP0 st) (XlamPprev st) (dirC st)) (\<lambda>(d, slf).
              bindE (attr (CtoP slf)) (\<lambda>ctop.
              bindE (vmul d ctop) (\<lambda>dirP.
                Inr (slf, calls st @ [(map (\<lambda>v. fmul v NaN) d, dirP)]))))
            else Inr (self st, calls st)) (\<lambda>(slf, log).
       Inr (XlamP_full st, slf, log))"

text \<open>
  \<open>continuation(fun, XlamP0, lam0, lam1, return_grad)\<close>.  The result is the history
  \<open>XlamP_full\<close>, together with the object as the run leaves it and the calls of the callback.
\<close>

definition continuation_run ::
  "heap \<Rightarrow> continuation \<Rightarrow> cont_fun \<Rightarrow> vec \<Rightarrow> fl \<Rightarrow> fl \<Rightarrow> bool
     \<Rightarrow> (error + vec list \<times> continuation \<times> (vec \<times> vec) list) option" where
  "continuation_run hp slf0 f XlamP0_arg lam0 lam1 return_grad =
     (if return_grad then Some (Inl (AssertionError ''Have not implemented this flag yet.''))
      else if MaxSteps (config slf0) < 0 then Some (Inl ValueError)
      else
        let silent = (verbose_c (config slf0) < 0);
            slf = prepare_object slf0 (length XlamP0_arg)
        in
        case bindE (initial_solve slf f XlamP0_arg lam0) (first_point slf XlamP0_arg lam0 lam1) of
          Inl e \<Rightarrow> Some (Inl e)
        | Inr (direct, st0) \<Rightarrow>
            (case continuation_loop hp f silent direct lam0 lam1
                    (nat (MaxSteps (config (self st0))) - 1) st0 of
               None \<Rightarrow> None
             | Some (Inl e) \<Rightarrow> Some (Inl e)
             | Some (Inr st) \<Rightarrow> Some (final_callback f st)))"

subsection \<open>Test objects for continuation\<close>

text \<open>
  A caller's configuration dictionary whose \<open>FracLamList\<close> is the list at address 0 of the
  store, and a solver object none of whose methods is called by the constructor.
\<close>

definition ladder_user_config :: user_config where
  "ladder_user_config = empty_user_config\<lparr>u_FracLamList := Some 0\<rparr>"

definition idle_solver :: solver where
  "idle_solver =
     \<lparr> solver_nsolve = (\<lambda>g x t. Inl (UserError ''not called'')),
       solver_lin_solve = (\<lambda>A b. Inl (UserError ''not called'')),
       solver_conditioning_wrapper = (\<lambda>g c r. g) \<rparr>"

text \<open>
  A residual function with one unknown, and a solver object (any object with the three
  methods will do) whose \<open>nsolve\<close> reports convergence to \<open>[5]\<close> for a guess of length one and
  to \<open>[2/5, 1]\<close> otherwise, and whose \<open>lin_solve\<close> returns \<open>[0, 1]\<close>.  With dynamic
  conditioning, the run from \<open>[5, 0]\<close> with \<open>CtoP = [1, 1]\<close> passes through the states
  \<open>dynamic_state0\<close> (before the first step), \<open>dynamic_state1\<close> and \<open>dynamic_state2\<close>.
\<close>

definition converged :: sol_dict where
  "converged = \<lparr> message = ''Converged'', nfev = 1, njev = 1, success = True \<rparr>"

definition flat_residual :: cont_fun where
  "flat_residual x calc_grad = Inr ([Fin 0], Some ([[Fin 1]], [Fin 0]))"

definition scripted_solver :: solver where
  "scripted_solver =
     \<lparr> solver_nsolve = (\<lambda>g guess t.
          if length guess = 1 then Inr ([Fin 5], [], [], converged)
          else Inr ([Fin (2 / 5), Fin 1], [], [], converged)),
       solver_lin_solve = (\<lambda>A b. Inr [Fin 0, Fin 1]),
       solver_conditioning_wrapper = (\<lambda>g c r. g) \<rparr>"

definition dynamic_user_config :: "int \<Rightarrow> user_config" where
  "dynamic_user_config n =
     empty_user_config\<lparr>u_FracLam := Some (Fin 1), u_MaxSteps := Some n,
                        u_DynamicCtoP := Some True\<rparr>"

definition dynamic_run :: "int \<Rightarrow> (error + vec list \<times> continuation \<times> (vec \<times> vec) list) option" where
  "dynamic_run n =
     (case Continuation_init [] scripted_solver (Fin 1) (Some [Fin 1, Fin 1]) None
             (dynamic_user_config n) of
        (hp, obj) \<Rightarrow> continuation_run hp obj flat_residual [Fin 5, Fin 0] (Fin 0) (Fin 10) False)"

definition dynamic_object :: continuation where
  "dynamic_object =
     \<lparr> solver = scripted_solver, setCtoPto1 = False, CtoP = Some [Fin 1, Fin 1],
       RPtoC = Vector [Fin 1, Fin 1], setRPtoCto1 = True,
       config = default_config (Fin 1) 0 (dynamic_user_config 3),
       CtoP0 = Some [Fin 1, Fin 1] \<rparr>"

definition dynamic_state0 :: cont_state where
  "dynamic_state0 =
     \<lparr> self = dynamic_object,
       XlamP_full = [[Fin 5, Fin 0]], XlamP0 = [Fin 5, Fin 0], XlamPprev = [Fin 5, Fin (- 1)],
       dirC = [Fin 0, Fin 1], ds = Fin 1, XlamC = None, sol_c = converged, calls = [] \<rparr>"

definition dynamic_state1 :: cont_state where
  "dynamic_state1 =
     \<lparr> self = dynamic_object\<lparr>CtoP := Some [Fin 5, Fin 1], RPtoC := Scalar (Fin (1 / 5))\<rparr>,
       XlamP_full = [[Fin 5, Fin 0], [Fin 2, Fin 1]], XlamP0 = [Fin 2, Fin 1],
       XlamPprev = [Fin 5, Fin 0], dirC = [Fin 0, Fin 1], ds = Fin (6 / 5),
       XlamC = Some [Fin (2 / 5), Fin 1], sol_c = converged, calls = [] \<rparr>"

definition dynamic_state2 :: cont_state where
  "dynamic_state2 =
     \<lparr> self = dynamic_object\<lparr>CtoP := Some [Fin 2, Fin 1], RPtoC := Scalar (Fin (1 / 2))\<rparr>,
       XlamP_full = [[Fin 5, Fin 0], [Fin 2, Fin 1], [Fin (4 / 5), Fin 1]],
       XlamP0 = [Fin (4 / 5), Fin 1], XlamPprev = [Fin 2, Fin 1], dirC = [Fin 0, Fin 1],
       ds = Fin (36 / 25), XlamC = Some [Fin (2 / 5), Fin 1], sol_c = converged, calls = [] \<rparr>"

text \<open>
  A solver object whose \<open>nsolve\<close> returns its initial guess, and reports convergence only for
  a guess of length one (the initial point) and for the guess \<open>[1, 8]\<close>.  The caller's ladder
  is the list \<open>[1, 1/4]\<close> at address 0 of the store, \<open>ds0 = 4\<close> and \<open>dsmin = 1\<close>.  The run from
  \<open>[1, 0]\<close> enters its first step in \<open>ladder_state0\<close>; \<open>ladder_state1\<close> is the state after the
  first value of the ladder has failed, \<open>ladder_state2\<close> the one after the second.
\<close>

definition failed :: sol_dict where
  "failed = \<lparr> message = ''failed'', nfev = 1, njev = 1, success = False \<rparr>"

definition picky_solver :: solver where
  "picky_solver =
     \<lparr> solver_nsolve = (\<lambda>g guess t.
          Inr (guess, [], [],
               if length guess = 1 \<or> guess = [Fin 1, Fin 8] then converged else failed)),
       solver_lin_solve = (\<lambda>A b. Inr [Fin 0, Fin 1]),
       solver_conditioning_wrapper = (\<lambda>g c r. g) \<rparr>"

definition two_value_user_config :: user_config where
  "two_value_user_config =
     empty_user_config\<lparr>u_FracLam := Some (Fin 1), u_FracLamList := Some 0,
                        u_dsmin := Some (Fin 1)\<rparr>"

definition ladder_run :: "(error + vec list \<times> continuation \<times> (vec \<times> vec) list) option" where
  "ladder_run =
     (case Continuation_init [[Fin 1, Fin (1 / 4)]] picky_solver (Fin 4) None None
             two_value_user_config of
        (hp, obj) \<Rightarrow> continuation_run hp obj flat_residual [Fin 1, Fin 0] (Fin 0) (Fin 10) False)"

definition ladder_object :: continuation where
  "ladder_object =
     \<lparr> solver = picky_solver, setCtoPto1 = True, CtoP = Some [Fin 1, Fin 1],
       RPtoC = Vector [Fin 1, Fin 1], setRPtoCto1 = True,
       config = default_config (Fin 4) 1 two_value_user_config,
       CtoP0 = None \<rparr>"

definition ladder_state0 :: cont_state where
  "ladder_state0 =
     \<lparr> self = ladder_object,
       XlamP_full = [[Fin 1, Fin 0]], XlamP0 = [Fin 1, Fin 0], XlamPprev = [Fin 1, Fin (- 1)],
       dirC = [Fin 0, Fin 1], ds = Fin 4, XlamC = None, sol_c = converged, calls = [] \<rparr>"

definition ladder_state1 :: cont_state where
  "ladder_state1 =
     ladder_state0\<lparr>self := ladder_object\<lparr>RPtoC := Scalar (Fin 1)\<rparr>, dirC := [Fin 0, Fin 1],
                    ds := Fin 1, XlamC := Some [Fin 1, Fin 1], sol_c := failed\<rparr>"

definition ladder_state2 :: cont_state where
  "ladder_state2 =
     ladder_state0\<lparr>self := ladder_object\<lparr>RPtoC := Scalar (Fin 1),
                       config := (config ladder_object)\<lparr>FracLam := Fin (1 / 4)\<rparr>\<rparr>,
                    dirC := [Fin 0, Fin 2],
                    ds := Fin 1, XlamC := Some [Fin 1, Fin 2], sol_c := failed\<rparr>"







section \<open>Nonlinear force elements (jax/nlforces)\<close>

text \<open>
  \<open>JenkinsForce\<close> and \<open>RoughContactFriction\<close>.  An object is the record of its attributes, and
  a method takes the object and returns its result together with the object as the call
  leaves it.  The local computations \<open>_local_aft_jenkins_grad\<close>, \<open>_local_aft\<close>,
  \<open>_local_aft_grad\<close> and \<open>_static_force_grad\<close> are functions compiled by \<open>jax.jit\<close> that
  call into JAX and into modules outside the modelled sources; they are given the object's
  attributes as arguments and do not receive the object, and they are parameters of the
  model: functions of their arguments.  The arrays of these classes hold reals.
\<close>

subsection \<open>Array operations of the coordinate transforms\<close>

text \<open>
  \<open>np.reshape(v, (m, n), 'F')\<close> and \<open>np.reshape(v, (m, n))\<close> of a one-dimensional array,
  \<open>np.reshape(A, (k,), 'F')\<close> of a matrix, the last column \<open>A[:, -1]\<close> (\<open>A[:, :-1]\<close> is
  \<open>map butlast A\<close>), \<open>np.kron(np.eye(n), A)\<close> and the product of a matrix and a vector.
\<close>

definition reshape_F :: "real list \<Rightarrow> nat \<Rightarrow> nat \<Rightarrow> error + rmat" where
  "reshape_F v m n =
     (if length v = m * n then Inr (map (\<lambda>i. map (\<lambda>j. v ! (i + m * j)) [0..<n]) [0..<m])
      else Inl ValueError)"

definition reshape_C :: "real list \<Rightarrow> nat \<Rightarrow> nat \<Rightarrow> error + rmat" where
  "reshape_C v m n =
     (if length v = m * n then Inr (map (\<lambda>i. map (\<lambda>j. v ! (i * n + j)) [0..<n]) [0..<m])
      else Inl ValueError)"

definition flatten_F :: "rmat \<Rightarrow> nat \<Rightarrow> error + real list" where
  "flatten_F A k = (if length (concat A) = k then Inr (concat (transpose A)) else Inl ValueError)"

definition last_column :: "rmat \<Rightarrow> error + real list" where
  "last_column A = (if list_all (\<lambda>r. r \<noteq> []) A then Inr (map last A) else Inl IndexError)"

definition kron_eye :: "nat \<Rightarrow> rmat \<Rightarrow> rmat" where
  "kron_eye n A =
     concat (map (\<lambda>b. map (\<lambda>r. replicate (b * ncols A) 0 @ r
                                  @ replicate ((n - 1 - b) * ncols A) 0) A) [0..<n])"

definition matvec :: "rmat \<Rightarrow> real list \<Rightarrow> error + real list" where
  "matvec A v =
     (if list_all (\<lambda>r. length r = length v) A
      then Inr (map (\<lambda>r. sum_list (map2 (*) r v)) A) else Inl ValueError)"

text \<open>\<open>2*(h != 0).sum() + (h == 0).sum()\<close>, as \<open>aft\<close> computes it (without the test of \<open>Nhc\<close>).\<close>

definition count_Nhc :: "int list \<Rightarrow> nat" where
  "count_Nhc h = 2 * length (filter (\<lambda>k. k \<noteq> 0) h) + length (filter (\<lambda>k. k = 0) h)"

subsection \<open>JenkinsForce\<close>

record JenkinsForce =
  j_Q :: rmat
  j_T :: rmat
  j_kt :: real
  j_Fs :: real
  j_prestress_Fs :: real
  j_real_Fs :: real
  j_u0 :: "real option"

definition JenkinsForce_init :: "rmat \<Rightarrow> rmat \<Rightarrow> real \<Rightarrow> real \<Rightarrow> real option \<Rightarrow> JenkinsForce" where
  "JenkinsForce_init Q_arg T_arg kt_arg Fs_arg u0_arg =
     \<lparr> j_Q = Q_arg, j_T = T_arg, j_kt = kt_arg, j_Fs = Fs_arg, j_prestress_Fs = 0,
       j_real_Fs = Fs_arg, j_u0 = u0_arg \<rparr>"

definition Jenkins_set_prestress_mu :: "JenkinsForce \<Rightarrow> JenkinsForce" where
  "Jenkins_set_prestress_mu slf = slf\<lparr>j_Fs := j_prestress_Fs slf\<rparr>"

definition Jenkins_reset_real_mu :: "JenkinsForce \<Rightarrow> JenkinsForce" where
  "Jenkins_reset_real_mu slf = slf\<lparr>j_Fs := j_real_Fs slf\<rparr>"

text \<open>
  The starting position of the slider handed to the local computation: the number
  \<open>self.u0\<close>, or the row \<open>Ulocal[0, :]\<close> when \<open>self.u0\<close> is \<open>None\<close>.
\<close>

datatype slider_start = Start_value real | Start_row "real list"

type_synonym jenkins_kernel =
  "real list \<Rightarrow> real list \<Rightarrow> slider_start \<Rightarrow> int list \<Rightarrow> int \<Rightarrow> bool \<Rightarrow> error + (rmat \<times> real list)"

text \<open>\<open>JenkinsForce.aft(U, w, h, Nt, tol)\<close>; \<open>tol\<close> is ignored.\<close>

definition Jenkins_aft ::
  "jenkins_kernel \<Rightarrow> JenkinsForce \<Rightarrow> real list \<Rightarrow> real \<Rightarrow> int list \<Rightarrow> int
     \<Rightarrow> (error + real list \<times> rmat \<times> real list) \<times> JenkinsForce" where
  "Jenkins_aft local_aft_jenkins_grad slf U w h Nt =
     (let Nhc_local = count_Nhc h in
      bindE (reshape_F U (ncols (j_Q slf)) Nhc_local) (\<lambda>Umat.
      bindE (matmul (j_Q slf) Umat) (\<lambda>QU.
      let Ulocal = transpose QU;
          Ndnl = length (j_Q slf)
      in
      bindE (case j_u0 slf of
               None \<Rightarrow> (case Ulocal of [] \<Rightarrow> Inl IndexError | r # _ \<Rightarrow> Inr (Start_row r, True))
             | Some v \<Rightarrow> Inr (Start_value v, False)) (\<lambda>(start, u0h0).
      bindE (flatten_F (transpose Ulocal) (Ndnl * Nhc_local)) (\<lambda>flat.
      let Uwlocal = flat @ [w];
          pars = [j_kt slf, j_Fs slf]
      in
      bindE (local_aft_jenkins_grad Uwlocal pars start h Nt u0h0) (\<lambda>(dFdUwlocal, Flocal).
      bindE (reshape_F Flocal Ndnl Nhc_local) (\<lambda>Fl.
      bindE (matmul (j_T slf) Fl) (\<lambda>TF.
      bindE (flatten_F TF (length U)) (\<lambda>Fnl.
      bindE (matmul (kron_eye Nhc_local (j_T slf)) (map butlast dFdUwlocal)) (\<lambda>A.
      bindE (matmul A (kron_eye Nhc_local (j_Q slf))) (\<lambda>dFnldU.
      bindE (last_column dFdUwlocal) (\<lambda>col.
      bindE (reshape_C col Ndnl Nhc_local) (\<lambda>W.
      bindE (matmul (j_T slf) W) (\<lambda>TW.
      bindE (flatten_F TW (length U)) (\<lambda>dFnldw.
        Inr (Fnl, dFnldU, dFnldw))))))))))))))),
      slf)"

subsection \<open>RoughContactFriction\<close>

text \<open>
  The attributes; \<open>unmax\<close>, \<open>Fm_prev\<close>, \<open>fxy0\<close> and \<open>uxyn0\<close> are the history variables.
\<close>

record RoughContactFriction =
  rc_Q :: rmat
  rc_T :: rmat
  elastic_mod :: real
  poisson :: real
  rc_Re :: real
  tangent_mod :: real
  rc_sys :: real
  rc_mu :: real
  real_mu :: real
  prestress_mu :: real
  tangent_model :: string
  rc_u0 :: real
  Estar :: real
  shear_mod :: real
  Gstar :: real
  delta_y :: real
  meso_gap :: real
  gaps :: "real list"
  gap_weights :: "real list"
  uxyn_initialize :: "real list"
  unmax :: real
  Fm_prev :: "real list"
  fxy0 :: rmat
  uxyn0 :: "real list"

definition init_history :: "RoughContactFriction \<Rightarrow> RoughContactFriction" where
  "init_history slf =
     slf\<lparr>unmax := 0, Fm_prev := replicate (length (gap_weights slf)) 0,
          fxy0 := rzeros (length (gap_weights slf)) 2, uxyn0 := replicate 3 0\<rparr>"

definition update_history ::
  "RoughContactFriction \<Rightarrow> real list \<Rightarrow> real list \<Rightarrow> rmat \<Rightarrow> error + RoughContactFriction" where
  "update_history slf uxyn Fm_curr fxy_curr =
     (if uxyn = [] then Inl IndexError
      else Inr (slf\<lparr>unmax := max (last uxyn) (unmax slf), Fm_prev := Fm_curr,
                     fxy0 := fxy_curr, uxyn0 := uxyn\<rparr>))"

definition set_prestress_mu :: "RoughContactFriction \<Rightarrow> RoughContactFriction" where
  "set_prestress_mu slf = slf\<lparr>rc_mu := prestress_mu slf\<rparr>"

definition reset_real_mu :: "RoughContactFriction \<Rightarrow> RoughContactFriction" where
  "reset_real_mu slf = slf\<lparr>rc_mu := real_mu slf\<rparr>"

definition set_aft_initialize ::
  "RoughContactFriction \<Rightarrow> real list \<Rightarrow> error + RoughContactFriction" where
  "set_aft_initialize slf x =
     bindE (matvec (rc_Q slf) x) (\<lambda>v. Inr (slf\<lparr>uxyn_initialize := v\<rparr>))"

text \<open>
  The arguments of \<open>_static_force_grad\<close> and what it returns: the Jacobian, the force and
  \<open>aux = (fxyn, Fm_prev, fxy_curr, deltabar, Rebar, a)\<close>.
\<close>

record static_args =
  s_uxyn :: "real list"
  s_uxyn0 :: "real list"
  s_fxy0 :: rmat
  s_unmax :: real
  s_Fm_prev :: "real list"
  s_mu :: real
  s_meso_gap :: real
  s_gaps :: "real list"
  s_gap_weights :: "real list"
  s_Re :: real
  s_Possion :: real
  s_Estar :: real
  s_Emod :: real
  s_Etan :: real
  s_delta_y :: real
  s_Sys :: real
  s_Gstar :: real

record static_aux =
  aux_fxyn :: "real list"
  aux_Fm_prev :: "real list"
  aux_fxy_curr :: rmat
  aux_deltabar :: "real list"
  aux_Rebar :: "real list"
  aux_a :: "real list"

type_synonym static_kernel = "static_args \<Rightarrow> error + (rmat \<times> real list \<times> static_aux)"

text \<open>
  \<open>force(X, update_hist, return_aux)\<close>: the static force; with \<open>update_hist\<close> it commits
  the history.  The result is \<open>(F, dFdX)\<close>, followed by \<open>aux[1:]\<close> when \<open>return_aux\<close> is set.
\<close>

definition force ::
  "static_kernel \<Rightarrow> RoughContactFriction \<Rightarrow> real list \<Rightarrow> bool \<Rightarrow> bool
     \<Rightarrow> error + ((real list \<times> rmat \<times> static_aux option) \<times> RoughContactFriction)" where
  "force static_force_grad slf x update_hist return_aux =
     bindE (matvec (rc_Q slf) x) (\<lambda>uxyn.
     bindE (static_force_grad
              \<lparr> s_uxyn = uxyn, s_uxyn0 = uxyn0 slf, s_fxy0 = fxy0 slf, s_unmax = unmax slf,
                s_Fm_prev = Fm_prev slf, s_mu = rc_mu slf, s_meso_gap = meso_gap slf,
                s_gaps = gaps slf, s_gap_weights = gap_weights slf, s_Re = rc_Re slf,
                s_Possion = poisson slf, s_Estar = Estar slf, s_Emod = elastic_mod slf,
                s_Etan = tangent_mod slf, s_delta_y = delta_y slf, s_Sys = rc_sys slf,
                s_Gstar = Gstar slf \<rparr>) (\<lambda>(dfnldunl, fnl, aux).
     bindE (matvec (rc_T slf) fnl) (\<lambda>F.
     bindE (matmul (rc_T slf) dfnldunl) (\<lambda>TJ.
     bindE (matmul TJ (rc_Q slf)) (\<lambda>dFdX.
     bindE (if update_hist then update_history slf uxyn (aux_Fm_prev aux) (aux_fxy_curr aux)
            else Inr slf) (\<lambda>slf'.
       Inr ((F, dFdX, if return_aux then Some aux else None), slf')))))))"

text \<open>The arguments of \<open>_local_aft\<close> and \<open>_local_aft_grad\<close>.\<close>

record local_aft_args =
  a_Uwlocal :: "real list"
  a_unlth0 :: "real list"
  a_mu :: real
  a_meso_gap :: real
  a_gaps :: "real list"
  a_gap_weights :: "real list"
  a_Re :: real
  a_Possion :: real
  a_Estar :: real
  a_Emod :: real
  a_Etan :: real
  a_delta_y :: real
  a_Sys :: real
  a_Gstar :: real
  a_htuple :: "int list"
  a_Nt :: int
  a_repeats :: int
  a_tangent_model :: string

definition aft_args ::
  "RoughContactFriction \<Rightarrow> real list \<Rightarrow> int list \<Rightarrow> int \<Rightarrow> int \<Rightarrow> local_aft_args" where
  "aft_args slf Uwlocal h Nt max_repeats =
     \<lparr> a_Uwlocal = Uwlocal, a_unlth0 = uxyn_initialize slf, a_mu = rc_mu slf,
       a_meso_gap = meso_gap slf, a_gaps = gaps slf, a_gap_weights = gap_weights slf,
       a_Re = rc_Re slf, a_Possion = poisson slf, a_Estar = Estar slf,
       a_Emod = elastic_mod slf, a_Etan = tangent_mod slf, a_delta_y = delta_y slf,
       a_Sys = rc_sys slf, a_Gstar = Gstar slf, a_htuple = h, a_Nt = Nt,
       a_repeats = max_repeats, a_tangent_model = tangent_model slf \<rparr>"

text \<open>The four shapes of what \<open>aft\<close> returns, by \<open>return_local\<close> and \<open>calc_grad\<close>.\<close>

datatype aft_result =
    Global_forces "real list"
  | Global_forces_grad "real list" rmat "real list"
  | Local_forces rmat
  | Local_forces_grad rmat rmat "real list"

text \<open>
  \<open>RoughContactFriction.aft(U, w, h, Nt, tol, max_repeats, return_local, calc_grad)\<close>;
  \<open>tol\<close> is ignored.
\<close>

definition RoughContact_aft ::
  "(local_aft_args \<Rightarrow> error + (rmat \<times> real list))
     \<Rightarrow> (local_aft_args \<Rightarrow> error + (real list \<times> real list))
     \<Rightarrow> RoughContactFriction \<Rightarrow> real list \<Rightarrow> real \<Rightarrow> int list \<Rightarrow> int \<Rightarrow> int \<Rightarrow> bool \<Rightarrow> bool
     \<Rightarrow> (error + aft_result) \<times> RoughContactFriction" where
  "RoughContact_aft local_aft_grad local_aft slf U w h Nt max_repeats return_local calc_grad =
     (let Nhc_local = count_Nhc h in
      bindE (reshape_F U (ncols (rc_Q slf)) Nhc_local) (\<lambda>Umat.
      bindE (matmul (rc_Q slf) Umat) (\<lambda>QU.
      let Ulocal = transpose QU;
          Ndnl = length (rc_Q slf)
      in
      bindE (flatten_F (transpose Ulocal) (Ndnl * Nhc_local)) (\<lambda>flat.
      let Uwlocal = flat @ [w] in
      bindE (if calc_grad
             then bindE (local_aft_grad (aft_args slf Uwlocal h Nt max_repeats))
                    (\<lambda>(J, F). Inr (Some J, F))
             else bindE (local_aft (aft_args slf Uwlocal h Nt max_repeats))
                    (\<lambda>(F, _). Inr (None, F))) (\<lambda>(dFdUwlocal, Flocal).
      bindE (reshape_F Flocal Ndnl Nhc_local) (\<lambda>Fl.
      if return_local then
        (case dFdUwlocal of
           Some J \<Rightarrow> bindE (last_column J) (\<lambda>col. Inr (Local_forces_grad Fl (map butlast J) col))
         | None \<Rightarrow> Inr (Local_forces Fl))
      else
        bindE (matmul (rc_T slf) Fl) (\<lambda>TF.
        bindE (flatten_F TF (length U)) (\<lambda>Fnl.
        case dFdUwlocal of
          None \<Rightarrow> Inr (Global_forces Fnl)
        | Some J \<Rightarrow>
            bindE (matmul (kron_eye Nhc_local (rc_T slf)) (map butlast J)) (\<lambda>A.
            bindE (matmul A (kron_eye Nhc_local (rc_Q slf))) (\<lambda>dFnldU.
            bindE (last_column J) (\<lambda>col.
            bindE (reshape_C col Ndnl Nhc_local) (\<lambda>W.
            bindE (matmul (rc_T slf) W) (\<lambda>TW.
            bindE (flatten_F TW (length U)) (\<lambda>dFnldw.
              Inr (Global_forces_grad Fnl dFnldU dFnldw)))))))))))))),
      slf)"

subsection \<open>A test element\<close>

text \<open>
  A Jenkins element with one degree of freedom and unit parameters, and a local computation
  that returns the displacement coefficients as forces, with the matching Jacobian for
  three harmonic components.
\<close>

definition unit_jenkins :: JenkinsForce where
  "unit_jenkins = JenkinsForce_init [[1]] [[1]] 1 1 (Some 0)"

definition linear_kernel :: jenkins_kernel where
  "linear_kernel Uwlocal pars start htuple Nt u0h0 =
     Inr ([[1, 0, 0, 0], [0, 1, 0, 0], [0, 0, 1, 0]], butlast Uwlocal)"

section \<open>Properties of the nonlinear solver\<close>

lemmas solver_eval =
  bindE_def np_sum_def np_sum2_def vneg_def vscale_def vdivs_def vzip_def vadd_def vsub_def
  vmul_def vdiv_def dot_def zeros_def tol_dict_def error_dict_def check_convg_def bound_def
  fun_R_dRdX_def unpack2_def fun_R_def zero_columns_def get_col_def set_col_def newton_update_def
  bfgs_update_def compute_step_def norms_of_def check_norms_def update_solution_def
  nsolve_iter_def final_clean_up_def call_config_def initial_state_def nsolve_def
  scalar_linalg_def identity_residual_def nan_residual_def default_solver_config_def Let_def
  inf_of_sign_def fgt_def

subsection \<open>The convergence criteria\<close>

text \<open>
  What the check computes: it declares convergence exactly when one of the listed keys has
  the absolute value of its entry of \<open>error_dict\<close> below its tolerance (here for lists whose
  keys all have a tolerance set, so that no exception is raised).
\<close>

lemma check_keys_True: "check_keys tdict errs True keys = Inr True"
  by (induction keys) simp_all

lemma check_keys_any:
  assumes "\<And>k. k \<in> set keys \<Longrightarrow> \<exists>err tol. map_of errs k = Some err \<and> tdict k = Some (Some tol)"
  shows "check_keys tdict errs c keys =
     Inr (c \<or> (\<exists>k \<in> set keys. flt (fabs (the (map_of errs k))) (the (the (tdict k)))))"
  using assms
proof (induction keys arbitrary: c)
  case Nil
  then show ?case by simp
next
  case (Cons k ks)
  from Cons.prems[of k] obtain err tol where k: "map_of errs k = Some err" "tdict k = Some (Some tol)"
    by auto
  have ih: "\<And>c. check_keys tdict errs c ks =
     Inr (c \<or> (\<exists>k \<in> set ks. flt (fabs (the (map_of errs k))) (the (the (tdict k)))))"
    using Cons.IH Cons.prems by simp
  show ?case
  proof (cases c)
    case True
    then show ?thesis by (simp add: check_keys_True)
  next
    case False
    then show ?thesis using k ih by auto
  qed
qed

text \<open>
  The check agrees with the documented one on every list that names neither \<open>xtol_rel\<close> nor
  \<open>etol_rel\<close>: the two dictionaries differ in these two entries only.
\<close>

lemma check_keys_cong:
  assumes "\<And>k. k \<in> set keys \<Longrightarrow> map_of errs k = map_of errs' k"
  shows "check_keys tdict errs c keys = check_keys tdict errs' c keys"
  using assms by (induction keys arbitrary: c) (simp_all split: option.splits)

lemma check_convg_documented_other_keys:
  assumes "''xtol_rel'' \<notin> set check_list" and "''etol_rel'' \<notin> set check_list"
  shows "check_convg check_list tdict r e u r_rel e_rel u_rel =
         documented_check_convg check_list tdict r e u r_rel e_rel u_rel"
  unfolding check_convg_def documented_check_convg_def
proof (rule check_keys_cong)
  fix k assume "k \<in> set check_list"
  with assms have "k \<noteq> ''xtol_rel''" "k \<noteq> ''etol_rel''" by auto
  then show "map_of (error_dict r e u r_rel e_rel u_rel) k =
             map_of (documented_error_dict r e u r_rel e_rel u_rel) k"
    by (simp add: error_dict_def documented_error_dict_def)
qed

text \<open>
  C1 (the code departs from the claim).  With \<open>stopping_tol = ['xtol_rel']\<close> and
  \<open>xtol_rel = 0.5\<close>: at a point whose relative step norm is 0 and whose relative energy norm
  is NaN, the documented criterion is satisfied but \<open>_check_convg\<close> answers \<open>False\<close>, because
  its dictionary files the relative energy norm under \<open>xtol_rel\<close> (and the relative step norm
  under \<open>etol_rel\<close>).  This is the point the solve of \<open>R(x) = x\<close> from \<open>x = 1\<close> proposes in
  iteration 1; the solve runs to the iteration cap and reports failure.
\<close>

theorem check_convg_swaps_relative_step_and_energy:
  "check_convg [''xtol_rel''] (tol_dict relative_step_config)
      (Fin 0) (Fin 0) (Fin 0) (Fin 0) NaN (Fin 0) = Inr False
   \<and> documented_check_convg [''xtol_rel''] (tol_dict relative_step_config)
      (Fin 0) (Fin 0) (Fin 0) (Fin 0) NaN (Fin 0) = Inr True
   \<and> nsolve relative_step_config scalar_linalg identity_residual [Fin 1] None
       = Inr ([Fin 0], [Fin 0], [[Fin 1]],
              \<lparr>message = ''failed'', nfev = 3, njev = 3, success = False\<rparr>)"
proof (intro conjI)
  show "check_convg [''xtol_rel''] (tol_dict relative_step_config)
      (Fin 0) (Fin 0) (Fin 0) (Fin 0) NaN (Fin 0) = Inr False"
    by (simp add: check_convg_def error_dict_def tol_dict_def relative_step_config_def
        default_solver_config_def)
  show "documented_check_convg [''xtol_rel''] (tol_dict relative_step_config)
      (Fin 0) (Fin 0) (Fin 0) (Fin 0) NaN (Fin 0) = Inr True"
    by (simp add: documented_check_convg_def documented_error_dict_def tol_dict_def
        relative_step_config_def default_solver_config_def)
  show "nsolve relative_step_config scalar_linalg identity_residual [Fin 1] None
       = Inr ([Fin 0], [Fin 0], [[Fin 1]],
              \<lparr>message = ''failed'', nfev = 3, njev = 3, success = False\<rparr>)"
    by (simp add: solver_eval relative_step_config_def numeral_3_eq_3)
qed

subsection \<open>NaN in the residual, the Jacobian or the step\<close>

lemma fadd_NaN_right: "fadd a NaN = NaN"
  by (cases a) simp_all

lemma foldl_fadd_NaN: "foldl fadd NaN v = NaN"
  by (induction v) simp_all

lemma foldl_fadd_has_nan: "list_ex isnan v \<Longrightarrow> foldl fadd a v = NaN"
proof (induction v arbitrary: a)
  case Nil
  then show ?case by simp
next
  case (Cons x xs)
  show ?case
  proof (cases "isnan x")
    case True
    then have "x = NaN" by (cases x) simp_all
    then show ?thesis by (simp add: fadd_NaN_right foldl_fadd_NaN)
  next
    case False
    with Cons.prems have "list_ex isnan xs" by simp
    then show ?thesis using Cons.IH by simp
  qed
qed

lemma has_nan_sum: "has_nan v \<Longrightarrow> isnan (np_sum v)"
  by (simp add: has_nan_def np_sum_def foldl_fadd_has_nan)

lemma newton_nan_residual:
  assumes "fun_R_dRdX cfg f (X st) = Inr (r, j)" and "has_nan r \<or> has_nan (concat j)"
  shows "newton_update cfg L f st =
     Inr (Nan_break (st\<lparr>R := Some r, dRdX := Some j,
        sol := (sol st)\<lparr>nfev := nfev (sol st) + 1, njev := njev (sol st) + 1\<rparr>,
        no_nan_vals := False\<rparr>))"
  using assms has_nan_sum[of r] has_nan_sum[of "concat j"]
  by (auto simp add: newton_update_def bindE_def Let_def np_sum2_def)

lemma bfgs_nan_residual:
  assumes "fun_R cfg f (X st) = Inr r" and "has_nan r"
  shows "bfgs_update cfg L f st =
     Inr (Nan_break (st\<lparr>R := Some r,
        sol := (sol st)\<lparr>nfev := nfev (sol st) + 1\<rparr>,
        no_nan_vals := False\<rparr>))"
  using assms has_nan_sum[of r]
  by (simp add: bfgs_update_def bindE_def Let_def)

lemma update_solution_nan:
  "has_nan d \<Longrightarrow> update_solution cfg i st d = Inr (Break (st\<lparr>deltaX := Some d, no_nan_vals := False\<rparr>))"
  by (simp add: update_solution_def has_nan_sum)

lemma newton_step_state:
  assumes "newton_update cfg L f st = Inr (Step st' d)"
  shows "X st' = X st \<and> R st' \<noteq> None \<and> dRdX st' \<noteq> None \<and> nfev (sol st') = Suc (nfev (sol st))
    \<and> success (sol st') = success (sol st) \<and> message (sol st') = message (sol st) \<and> bfgs_ind st' = bfgs_ind st"
  using assms
  by (auto simp add: newton_update_def bindE_def Let_def split: sum.splits if_splits prod.splits)

lemma bfgs_step_state:
  assumes "bfgs_update cfg L f st = Inr (Step st' d)"
  shows "X st' = X st \<and> R st' \<noteq> None \<and> dRdX st' = dRdX st \<and> nfev (sol st') = Suc (nfev (sol st))
    \<and> success (sol st') = success (sol st) \<and> message (sol st') = message (sol st) \<and> bfgs_ind st' = bfgs_ind st"
  using assms
  by (auto simp add: bfgs_update_def bindE_def Let_def split: sum.splits if_splits prod.splits)


lemma update_solution_next:
  assumes "update_solution cfg i st d = Inr (Next st')"
  shows "R st' = R st \<and> dRdX st' = dRdX st \<and> sol st' = sol st"
  using assms
  by (auto simp add: update_solution_def bindE_def Let_def split: sum.splits if_splits)

lemma nsolve_iter_running:
  assumes "nsolve_iter cfg L f i st = Inr (Next st')" and "still_running st"
  shows "still_running st'"
proof (cases "bfgs_ind st = 0")
  case True
  with assms(1) obtain st1 d where b: "newton_update cfg L f st = Inr (Step st1 d)"
    and u: "update_solution cfg i st1 d = Inr (Next st')"
    by (auto simp add: nsolve_iter_def compute_step_def bindE_def split: sum.splits branch.splits)
  from newton_step_state[OF b] update_solution_next[OF u] assms(2)
  show ?thesis by (simp add: still_running_def)
next
  case False
  with assms(1) obtain st1 d where b: "bfgs_update cfg L f st = Inr (Step st1 d)"
    and u: "update_solution cfg i st1 d = Inr (Next st')"
    by (auto simp add: nsolve_iter_def compute_step_def bindE_def split: sum.splits branch.splits)
  from bfgs_step_state[OF b] update_solution_next[OF u] assms(2) False
  show ?thesis by (simp add: still_running_def)
qed

lemma iterate_to_running:
  "iterate_to cfg L f k st0 = Inr (Next st) \<Longrightarrow> still_running st0 \<Longrightarrow> still_running st"
proof (induction k arbitrary: st)
  case 0
  then show ?case by simp
next
  case (Suc k)
  from Suc.prems(1) obtain st1 where a: "iterate_to cfg L f k st0 = Inr (Next st1)"
    and b: "nsolve_iter cfg L f k st1 = Inr (Next st)"
    by (auto split: sum.splits flow.splits)
  from Suc.IH[OF a Suc.prems(2)] nsolve_iter_running[OF b] show ?case by simp
qed

lemma nsolve_loop_from:
  "iterate_to cfg L f k st0 = Inr (Next st) \<Longrightarrow> k \<le> n \<Longrightarrow>
     nsolve_loop cfg L f 0 n st0 = nsolve_loop cfg L f k (n - k) st"
proof (induction k arbitrary: st)
  case 0
  then show ?case by simp
next
  case (Suc k)
  from Suc.prems(1) obtain st1 where a: "iterate_to cfg L f k st0 = Inr (Next st1)"
    and b: "nsolve_iter cfg L f k st1 = Inr (Next st)"
    by (auto split: sum.splits flow.splits)
  from Suc.prems(2) have n: "n - k = Suc (n - Suc k)" by simp
  have "nsolve_loop cfg L f 0 n st0 = nsolve_loop cfg L f k (n - k) st1"
    using Suc.IH[OF a] Suc.prems(2) by simp
  also have "\<dots> = nsolve_loop cfg L f (Suc k) (n - Suc k) st"
    by (simp only: n nsolve_loop.simps b sum.case flow.case)
  finally show ?case .
qed

lemma running_initial: "still_running (initial_state x0)"
  by (simp add: still_running_def initial_state_def)

lemma final_clean_up_nan:
  assumes "\<not> no_nan_vals st" and "R st = Some r" and "dRdX st = Some j"
  shows "final_clean_up cfg st = Inr (X st, r, j, sol st)"
  using assms by (simp add: final_clean_up_def bindE_def bound_def)

lemma nsolve_iter_nan:
  assumes "still_running st"
    and "(bfgs_ind st = 0 \<and> (\<exists>r j. fun_R_dRdX cfg f (X st) = Inr (r, j) \<and> (has_nan r \<or> has_nan (concat j))))
       \<or> (bfgs_ind st \<noteq> 0 \<and> (\<exists>r. fun_R cfg f (X st) = Inr r \<and> has_nan r))
       \<or> (\<exists>st1 d. compute_step cfg L f st = Inr (Step st1 d) \<and> has_nan d)"
  shows "\<exists>st'. nsolve_iter cfg L f i st = Inr (Break st') \<and> \<not> no_nan_vals st' \<and> X st' = X st
     \<and> R st' \<noteq> None \<and> dRdX st' \<noteq> None \<and> \<not> success (sol st') \<and> message (sol st') = ''failed''
     \<and> nfev (sol st') = Suc (nfev (sol st))"
proof -
  consider (a) r j where "bfgs_ind st = 0" "fun_R_dRdX cfg f (X st) = Inr (r, j)" "has_nan r \<or> has_nan (concat j)"
    | (b) r where "bfgs_ind st \<noteq> 0" "fun_R cfg f (X st) = Inr r" "has_nan r"
    | (c) st1 d where "compute_step cfg L f st = Inr (Step st1 d)" "has_nan d"
    using assms(2) by blast
  then show ?thesis
  proof cases
    case a
    from newton_nan_residual[OF a(2,3), of L] a(1) assms(1)
    show ?thesis by (simp add: nsolve_iter_def compute_step_def bindE_def still_running_def)
  next
    case b
    from bfgs_nan_residual[OF b(2,3), of L] b(1) assms(1)
    show ?thesis by (simp add: nsolve_iter_def compute_step_def bindE_def still_running_def)
  next
    case c
    have s: "X st1 = X st \<and> R st1 \<noteq> None \<and> dRdX st1 \<noteq> None \<and> nfev (sol st1) = Suc (nfev (sol st))
        \<and> success (sol st1) = success (sol st) \<and> message (sol st1) = message (sol st)"
    proof (cases "bfgs_ind st = 0")
      case True
      with c(1) have "newton_update cfg L f st = Inr (Step st1 d)" by (simp add: compute_step_def)
      from newton_step_state[OF this] show ?thesis by simp
    next
      case False
      with c(1) have "bfgs_update cfg L f st = Inr (Step st1 d)" by (simp add: compute_step_def)
      from bfgs_step_state[OF this] False assms(1) show ?thesis by (simp add: still_running_def)
    qed
    from c s assms(1) update_solution_nan[OF c(2), of cfg i st1]
    show ?thesis by (simp add: nsolve_iter_def bindE_def still_running_def)
  qed
qed

text \<open>
  C7.  Take any call of \<open>nsolve\<close> and any iteration \<open>k\<close> it reaches.  If a NaN appears in
  the residual evaluated in that iteration, in the Jacobian evaluated there (a Newton
  iteration), or in the step computed there, then the call returns with the iterate as it
  stood at the start of iteration \<open>k\<close>, \<open>success = False\<close> and message \<open>failed\<close>, after exactly
  one more function evaluation, whatever \<open>accepting_tol\<close> holds.
\<close>

theorem nsolve_nan_fails:
  assumes cfg: "cfg = call_config cfg0 x0 xtol_arg"
    and reach: "iterate_to cfg L f k (initial_state x0) = Inr (Next st)"
    and k: "int k < max_steps cfg"
    and nan: "(bfgs_ind st = 0 \<and> (\<exists>r j. fun_R_dRdX cfg f (X st) = Inr (r, j) \<and> (has_nan r \<or> has_nan (concat j))))
       \<or> (bfgs_ind st \<noteq> 0 \<and> (\<exists>r. fun_R cfg f (X st) = Inr r \<and> has_nan r))
       \<or> (\<exists>st1 d. compute_step cfg L f st = Inr (Step st1 d) \<and> has_nan d)"
  shows "\<exists>r j s. nsolve cfg0 L f x0 xtol_arg = Inr (X st, r, j, s)
           \<and> \<not> success s \<and> message s = ''failed'' \<and> nfev s = Suc (nfev (sol st))"
proof -
  have i: "still_running st" using iterate_to_running[OF reach running_initial] .
  from nsolve_iter_nan[OF i nan, of k] obtain st' r j where
    it: "nsolve_iter cfg L f k st = Inr (Break st')" and st': "\<not> no_nan_vals st'" "X st' = X st"
      "R st' = Some r" "dRdX st' = Some j" "\<not> success (sol st')" "message (sol st') = ''failed''"
      "nfev (sol st') = Suc (nfev (sol st))"
    by auto
  from k have kn: "k \<le> nat (max_steps cfg)" and n: "nat (max_steps cfg) - k = Suc (nat (max_steps cfg) - Suc k)"
    by auto
  have "nsolve_loop cfg L f 0 (nat (max_steps cfg)) (initial_state x0) = Inr st'"
    unfolding nsolve_loop_from[OF reach kn] by (simp only: n nsolve_loop.simps it sum.case flow.case)
  moreover have "\<not> max_steps cfg + 1 < 0" using k by simp
  ultimately have "nsolve cfg0 L f x0 xtol_arg = Inr (X st, r, j, sol st')"
    using final_clean_up_nan[OF st'(1,3,4), of cfg] st'(2) cfg
    by (simp add: nsolve_def Let_def bindE_def)
  with st' show ?thesis by simp
qed

theorem nsolve_nan_fails_witness:
  "\<exists>r j s. nsolve loose_accepting_config scalar_linalg nan_residual [Fin 1] None
             = Inr ([Fin 0], r, j, s)
           \<and> \<not> success s \<and> message s = ''failed'' \<and> nfev s = Suc (Suc 0)"
proof -
  let ?cfg = "call_config loose_accepting_config [Fin 1] None"
  have a: "iterate_to ?cfg scalar_linalg nan_residual 1 (initial_state [Fin 1])
            = Inr (Next nan_residual_state)"
    by (simp add: solver_eval loose_accepting_config_def nan_residual_state_def)
  have b: "int 1 < max_steps ?cfg"
    by (simp add: call_config_def loose_accepting_config_def default_solver_config_def)
  have c: "(bfgs_ind nan_residual_state = 0
          \<and> (\<exists>r j. fun_R_dRdX ?cfg nan_residual (X nan_residual_state) = Inr (r, j)
                 \<and> (has_nan r \<or> has_nan (concat j))))
       \<or> (bfgs_ind nan_residual_state \<noteq> 0
          \<and> (\<exists>r. fun_R ?cfg nan_residual (X nan_residual_state) = Inr r \<and> has_nan r))
       \<or> (\<exists>st1 d. compute_step ?cfg scalar_linalg nan_residual nan_residual_state
                     = Inr (Step st1 d) \<and> has_nan d)"
    by (simp add: nan_residual_state_def fun_R_dRdX_def unpack2_def bindE_def nan_residual_def
        has_nan_def)
  from nsolve_nan_fails[OF refl a b c] show ?thesis
    by (simp add: nan_residual_state_def)
qed

section \<open>Properties of the harmonic utilities\<close>

subsection \<open>The harmonic stiffness matrix\<close>

lemma in_block_iff: "0 < nd \<Longrightarrow> (nd * b \<le> i \<and> i < nd * b + nd) = (i div nd = b)" for nd :: nat
proof
  assume "nd * b \<le> i \<and> i < nd * b + nd"
  then show "i div nd = b" by (intro div_nat_eqI) simp_all
next
  assume a: "0 < nd" and b: "i div nd = b"
  have "nd * (i div nd) \<le> i" by simp
  moreover have "i < nd + nd * (i div nd)" using a by (rule dividend_less_times_div)
  ultimately show "nd * b \<le> i \<and> i < nd * b + nd" using b by (simp add: add.commute)
qed

lemma has_shape_nth: "has_shape m n A \<Longrightarrow> i < m \<Longrightarrow> length (A ! i) = n"
  by (simp add: has_shape_def list_all_length)

lemma set_block_ok:
  assumes "has_shape n n E" "r + nd \<le> n" "c + nd \<le> n" "has_shape nd nd B"
  shows "\<exists>E'. set_block E r c nd B = Inr E' \<and> has_shape n n E' \<and>
     (\<forall>i<n. \<forall>j<n. E' ! i ! j =
        (if r \<le> i \<and> i < r + nd \<and> c \<le> j \<and> j < c + nd then B ! (i - r) ! (j - c) else E ! i ! j))"
proof -
  let ?E' = "map (\<lambda>i. if r \<le> i \<and> i < r + nd
                            then take c (E ! i) @ (B ! (i - r)) @ drop (c + nd) (E ! i)
                            else E ! i) [0..<length E]"
  have len: "length E = n" and rows: "\<And>i. i < n \<Longrightarrow> length (E ! i) = n"
    using assms(1) by (simp_all add: has_shape_def list_all_length)
  have brows: "\<And>i. i < nd \<Longrightarrow> length (B ! i) = nd"
    using assms(4) by (simp add: has_shape_def list_all_length)
  have ok: "set_block E r c nd B = Inr ?E'"
    using assms len rows by (simp add: set_block_def list_all_length)
  have shape: "has_shape n n ?E'"
    using len rows brows assms(2,3) by (auto simp add: has_shape_def list_all_length)
  have ent: "\<forall>i<n. \<forall>j<n. ?E' ! i ! j =
        (if r \<le> i \<and> i < r + nd \<and> c \<le> j \<and> j < c + nd then B ! (i - r) ! (j - c) else E ! i ! j)"
    using len rows brows assms(2,3) by (auto simp add: nth_append)
  from ok shape ent show ?thesis by blast
qed


lemma sub_block_mod: "i div nd = b \<Longrightarrow> i - nd * b = i mod nd" for nd :: nat
  by (metis minus_mult_div_eq_mod)

lemma mscale_shape: "has_shape m n A \<Longrightarrow> has_shape m n (mscale a A)"
  by (simp add: has_shape_def mscale_def list_all_length)

lemma mscale_nth: "has_shape m n A \<Longrightarrow> i < m \<Longrightarrow> j < n \<Longrightarrow> mscale a A ! i ! j = a * A ! i ! j"
  by (simp add: has_shape_def mscale_def list_all_length)

lemma madd_ok:
  assumes "has_shape m n A" "has_shape m n B"
  shows "\<exists>S. madd A B = Inr S \<and> has_shape m n S \<and> (\<forall>i<m. \<forall>j<n. S ! i ! j = A ! i ! j + B ! i ! j)"
  using assms by (simp add: madd_def has_shape_def list_all_length list_all2_conv_all_nth)

lemma set_block_div:
  assumes E: "has_shape n n E" and a: "nd * a + nd \<le> n" and c: "nd * c + nd \<le> n"
    and B: "has_shape nd nd B"
  shows "\<exists>E'. set_block E (nd * a) (nd * c) nd B = Inr E' \<and> has_shape n n E' \<and>
     (0 < nd \<longrightarrow> (\<forall>i<n. \<forall>j<n. E' ! i ! j =
        (if i div nd = a \<and> j div nd = c then B ! (i mod nd) ! (j mod nd) else E ! i ! j)))"
proof -
  from set_block_ok[OF E a c B] obtain E' where E': "set_block E (nd * a) (nd * c) nd B = Inr E'"
    "has_shape n n E'"
    "\<forall>i<n. \<forall>j<n. E' ! i ! j =
        (if nd * a \<le> i \<and> i < nd * a + nd \<and> nd * c \<le> j \<and> j < nd * c + nd
         then B ! (i - nd * a) ! (j - nd * c) else E ! i ! j)"
    by blast
  have "E' ! i ! j = (if i div nd = a \<and> j div nd = c then B ! (i mod nd) ! (j mod nd) else E ! i ! j)"
    if nd: "0 < nd" and i: "i < n" and j: "j < n" for i j
  proof -
    from E'(3) i j have e: "E' ! i ! j =
        (if nd * a \<le> i \<and> i < nd * a + nd \<and> nd * c \<le> j \<and> j < nd * c + nd
         then B ! (i - nd * a) ! (j - nd * c) else E ! i ! j)" by blast
    show ?thesis
    proof (cases "i div nd = a \<and> j div nd = c")
      case True
      then have "nd * a \<le> i \<and> i < nd * a + nd" "nd * c \<le> j \<and> j < nd * c + nd"
        using in_block_iff[OF nd, of a i] in_block_iff[OF nd, of c j] by blast+
      moreover have "i - nd * a = i mod nd" "j - nd * c = j mod nd"
        using True sub_block_mod by blast+
      ultimately show ?thesis using e True by simp
    next
      case False
      then have nc: "\<not> (nd * a \<le> i \<and> i < nd * a + nd \<and> nd * c \<le> j \<and> j < nd * c + nd)"
        using in_block_iff[OF nd, of a i] in_block_iff[OF nd, of c j] by blast
      have "E' ! i ! j = E ! i ! j" unfolding e by (rule if_not_P[OF nc])
      then show ?thesis using False by auto
    qed
  qed
  with E'(1,2) show ?thesis by blast
qed

lemma stiffness_blocks_ok:
  assumes E: "has_shape n n E" and b: "nd * (b + 2) \<le> n" and C: "has_shape nd nd C"
    and KM: "include_KM \<Longrightarrow> has_shape nd nd M \<and> has_shape nd nd K"
  shows "\<exists>E'. stiffness_blocks M C K w include_KM nd k b E = Inr E' \<and> has_shape n n E' \<and>
     (0 < nd \<longrightarrow> (\<forall>i<n. \<forall>j<n. E' ! i ! j = block_entry M C K w include_KM nd k b (E ! i ! j) i j))"
proof -
  let ?kw = "real_of_int k * w"
  let ?TR = "mscale (1 * real_of_int k * w) C"
  let ?BL = "mscale (- 1 * real_of_int k * w) C"
  have b0: "nd * b + nd \<le> n" "nd * (b + 1) + nd \<le> n" using b by simp_all
  have s1: "has_shape nd nd ?TR" and s2: "has_shape nd nd ?BL"
    by (rule mscale_shape[OF C])+
  have md: "0 < nd \<Longrightarrow> i mod nd < nd" for i by simp
  from set_block_div[OF E b0(1) b0(2) s1]
  obtain E1 where E1: "set_block E (nd * b) (nd * (b + 1)) nd ?TR = Inr E1"
      "has_shape n n E1"
      "0 < nd \<longrightarrow> (\<forall>i<n. \<forall>j<n. E1 ! i ! j =
        (if i div nd = b \<and> j div nd = b + 1 then ?TR ! (i mod nd) ! (j mod nd) else E ! i ! j))"
    by blast
  from set_block_div[OF E1(2) b0(2) b0(1) s2]
  obtain E2 where E2: "set_block E1 (nd * (b + 1)) (nd * b) nd ?BL = Inr E2"
      "has_shape n n E2"
      "0 < nd \<longrightarrow> (\<forall>i<n. \<forall>j<n. E2 ! i ! j =
        (if i div nd = b + 1 \<and> j div nd = b then ?BL ! (i mod nd) ! (j mod nd) else E1 ! i ! j))"
    by blast
  have e2: "E2 ! i ! j =
      (if i div nd = b \<and> j div nd = b + 1 then ?kw * C ! (i mod nd) ! (j mod nd)
       else if i div nd = b + 1 \<and> j div nd = b then - ?kw * C ! (i mod nd) ! (j mod nd)
       else E ! i ! j)" if "0 < nd" "i < n" "j < n" for i j
  proof -
    have "E2 ! i ! j = (if i div nd = b + 1 \<and> j div nd = b then ?BL ! (i mod nd) ! (j mod nd) else E1 ! i ! j)"
      using E2(3) that by blast
    moreover have "E1 ! i ! j = (if i div nd = b \<and> j div nd = b + 1 then ?TR ! (i mod nd) ! (j mod nd) else E ! i ! j)"
      using E1(3) that by blast
    moreover have "?TR ! (i mod nd) ! (j mod nd) = ?kw * C ! (i mod nd) ! (j mod nd)"
      "?BL ! (i mod nd) ! (j mod nd) = - ?kw * C ! (i mod nd) ! (j mod nd)"
      using mscale_nth[OF C md[OF that(1)] md[OF that(1)]] by simp_all
    ultimately show ?thesis by simp
  qed
  show ?thesis
  proof (cases include_KM)
    case False
    then have "stiffness_blocks M C K w include_KM nd k b E = Inr E2"
      using E1(1) E2(1) by (simp add: stiffness_blocks_def bindE_def Let_def)
    moreover have "0 < nd \<longrightarrow> (\<forall>i<n. \<forall>j<n. E2 ! i ! j = block_entry M C K w include_KM nd k b (E ! i ! j) i j)"
      using e2 False by (simp add: block_entry_def)
    ultimately show ?thesis using E2(2) by blast
  next
    case True
    with KM have M: "has_shape nd nd M" and K: "has_shape nd nd K" by simp_all
    from madd_ok[OF K mscale_shape[OF M]]
    obtain T where T: "madd K (mscale (- 1 * ?kw\<^sup>2) M) = Inr T" "has_shape nd nd T"
      "\<forall>i<nd. \<forall>j<nd. T ! i ! j = K ! i ! j + mscale (- 1 * ?kw\<^sup>2) M ! i ! j"
      by blast
    have t: "T ! (i mod nd) ! (j mod nd) = K ! (i mod nd) ! (j mod nd) - ?kw\<^sup>2 * M ! (i mod nd) ! (j mod nd)"
      if "0 < nd" for i j
      using T(3) mscale_nth[OF M md[OF that] md[OF that], of "- 1 * ?kw\<^sup>2" i j] md[OF that] by simp
    from set_block_div[OF E2(2) b0(1) b0(1) T(2)]
    obtain E3 where E3: "set_block E2 (nd * b) (nd * b) nd T = Inr E3" "has_shape n n E3"
      "0 < nd \<longrightarrow> (\<forall>i<n. \<forall>j<n. E3 ! i ! j =
        (if i div nd = b \<and> j div nd = b then T ! (i mod nd) ! (j mod nd) else E2 ! i ! j))"
      by blast
    from set_block_div[OF E3(2) b0(2) b0(2) T(2)]
    obtain E4 where E4: "set_block E3 (nd * (b + 1)) (nd * (b + 1)) nd T = Inr E4" "has_shape n n E4"
      "0 < nd \<longrightarrow> (\<forall>i<n. \<forall>j<n. E4 ! i ! j =
        (if i div nd = b + 1 \<and> j div nd = b + 1 then T ! (i mod nd) ! (j mod nd) else E3 ! i ! j))"
      by blast
    have "stiffness_blocks M C K w include_KM nd k b E = Inr E4"
      using True E1(1) E2(1) T(1) E3(1) E4(1)
      by (simp add: stiffness_blocks_def bindE_def Let_def)
    moreover have "E4 ! i ! j = block_entry M C K w include_KM nd k b (E ! i ! j) i j"
      if nd: "0 < nd" and ij: "i < n" "j < n" for i j
    proof -
      have "E4 ! i ! j = (if i div nd = b + 1 \<and> j div nd = b + 1 then T ! (i mod nd) ! (j mod nd) else E3 ! i ! j)"
        using E4(3) nd ij by blast
      moreover have "E3 ! i ! j = (if i div nd = b \<and> j div nd = b then T ! (i mod nd) ! (j mod nd) else E2 ! i ! j)"
        using E3(3) nd ij by blast
      ultimately show ?thesis
        using e2[OF nd ij] t[OF nd, of i j] True by (auto simp add: block_entry_def)
    qed
    ultimately show ?thesis using E4(2) by blast
  qed
qed

lemma gradient_blocks_ok:
  assumes D: "has_shape n n D" and b: "nd * (b + 2) \<le> n" and C: "has_shape nd nd C"
    and KM: "include_KM \<Longrightarrow> has_shape nd nd M"
  shows "\<exists>D'. gradient_blocks M C w include_KM nd k b D = Inr D' \<and> has_shape n n D'"
proof -
  have b0: "nd * b + nd \<le> n" "nd * (b + 1) + nd \<le> n" using b by simp_all
  from set_block_ok[OF D b0(1) b0(2) mscale_shape[OF C]]
  obtain D1 where D1: "set_block D (nd * b) (nd * (b + 1)) nd (mscale (real_of_int k) C) = Inr D1"
    "has_shape n n D1" by blast
  from set_block_ok[OF D1(2) b0(2) b0(1) mscale_shape[OF C]]
  obtain D2 where D2: "set_block D1 (nd * (b + 1)) (nd * b) nd (mscale (- 1 * real_of_int k) C) = Inr D2"
    "has_shape n n D2" by blast
  show ?thesis
  proof (cases include_KM)
    case False
    then show ?thesis using D1 D2 by (simp add: gradient_blocks_def bindE_def Let_def)
  next
    case True
    with KM have M: "has_shape nd nd M" by simp
    from set_block_ok[OF D2(2) b0(1) b0(1) mscale_shape[OF M]]
    obtain D3 where D3: "set_block D2 (nd * b) (nd * b) nd (mscale (- 2 * w * (real_of_int k)\<^sup>2) M) = Inr D3"
      "has_shape n n D3" by blast
    from set_block_ok[OF D3(2) b0(2) b0(2) mscale_shape[OF M]]
    obtain D4 where D4: "set_block D3 (nd * (b + 1)) (nd * (b + 1)) nd (mscale (- 2 * w * (real_of_int k)\<^sup>2) M) = Inr D4"
      "has_shape n n D4" by blast
    show ?thesis using True D1 D2 D3 D4 by (simp add: gradient_blocks_def bindE_def Let_def)
  qed
qed

lemma stiffness_loop_ok:
  assumes "has_shape n n E" and "\<forall>D0. D = Some D0 \<longrightarrow> has_shape n n D0"
    and "\<forall>hind \<in> set hinds. nd * (hind * 2 - zi + 2) \<le> n"
    and C: "has_shape nd nd C"
    and KM: "include_KM \<Longrightarrow> has_shape nd nd M \<and> has_shape nd nd K"
  shows "\<exists>E' D'. stiffness_loop M C K w h calc_grad include_KM nd zi hinds (E, D) = Inr (E', D')
     \<and> has_shape n n E'
     \<and> (0 < nd \<longrightarrow> (\<forall>i<n. \<forall>j<n. E' ! i ! j = loop_entry M C K w h include_KM nd zi hinds (E ! i ! j) i j))"
  using assms(1-3)
proof (induction hinds arbitrary: E D)
  case Nil
  then show ?case by simp
next
  case (Cons hind hinds)
  have b: "nd * (hind * 2 - zi + 2) \<le> n" using Cons.prems(3) by simp
  have rest: "\<forall>hind \<in> set hinds. nd * (hind * 2 - zi + 2) \<le> n" using Cons.prems(3) by simp
  from stiffness_blocks_ok[where w=w and k="h ! hind", OF Cons.prems(1) b C KM]
  obtain E1 where E1: "stiffness_blocks M C K w include_KM nd (h ! hind) (hind * 2 - zi) E = Inr E1"
    "has_shape n n E1"
    "0 < nd \<longrightarrow> (\<forall>i<n. \<forall>j<n. E1 ! i ! j = block_entry M C K w include_KM nd (h ! hind) (hind * 2 - zi) (E ! i ! j) i j)"
    by blast
  have "\<exists>D1. (case D of None \<Rightarrow> Inr None
            | Some D0 \<Rightarrow> bindE (gradient_blocks M C w include_KM nd (h ! hind) (hind * 2 - zi) D0)
                          (\<lambda>D'. Inr (Some D'))) = Inr D1 \<and> (\<forall>D0. D1 = Some D0 \<longrightarrow> has_shape n n D0)"
  proof (cases D)
    case None
    then show ?thesis by simp
  next
    case (Some D0)
    with Cons.prems(2) have "has_shape n n D0" by simp
    from gradient_blocks_ok[where w=w and k="h ! hind" and include_KM=include_KM and M=M, OF this b C] KM
    show ?thesis using Some by (auto simp add: bindE_def)
  qed
  then obtain D1 where D1: "(case D of None \<Rightarrow> Inr None
            | Some D0 \<Rightarrow> bindE (gradient_blocks M C w include_KM nd (h ! hind) (hind * 2 - zi) D0)
                          (\<lambda>D'. Inr (Some D'))) = Inr D1" "\<forall>D0. D1 = Some D0 \<longrightarrow> has_shape n n D0"
    by blast
  have "\<exists>E' D'. stiffness_loop M C K w h calc_grad include_KM nd zi hinds (E1, D1) = Inr (E', D')
     \<and> has_shape n n E'
     \<and> (0 < nd \<longrightarrow> (\<forall>i<n. \<forall>j<n. E' ! i ! j = loop_entry M C K w h include_KM nd zi hinds (E1 ! i ! j) i j))"
    using E1(2) D1(2) rest by (rule Cons.IH)
  then obtain E' D' where r: "stiffness_loop M C K w h calc_grad include_KM nd zi hinds (E1, D1) = Inr (E', D')"
    "has_shape n n E'"
    "0 < nd \<longrightarrow> (\<forall>i<n. \<forall>j<n. E' ! i ! j = loop_entry M C K w h include_KM nd zi hinds (E1 ! i ! j) i j)"
    by blast
  have "stiffness_loop M C K w h calc_grad include_KM nd zi (hind # hinds) (E, D) = Inr (E', D')"
    using E1(1) D1(1) r(1) by (simp add: bindE_def)
  moreover have "0 < nd \<longrightarrow> (\<forall>i<n. \<forall>j<n. E' ! i ! j = loop_entry M C K w h include_KM nd zi (hind # hinds) (E ! i ! j) i j)"
    using r(3) E1(3) by simp
  ultimately show ?case using r(2) by blast
qed

text \<open>The blocks of different harmonics do not overlap.\<close>

lemma block_entry_outside:
  assumes "\<not> (i div nd \<in> {b, b + 1} \<and> j div nd \<in> {b, b + 1})"
  shows "block_entry M C K w include_KM nd k b old i j = old"
  using assms by (auto simp add: block_entry_def)

lemma loop_entry_outside:
  assumes "\<And>hind. hind \<in> set hinds \<Longrightarrow>
     \<not> (i div nd \<in> {hind * 2 - zi, hind * 2 - zi + 1} \<and> j div nd \<in> {hind * 2 - zi, hind * 2 - zi + 1})"
  shows "loop_entry M C K w h include_KM nd zi hinds old i j = old"
  using assms
proof (induction hinds arbitrary: old)
  case Nil
  then show ?case by simp
next
  case (Cons hind hinds)
  have "block_entry M C K w include_KM nd (h ! hind) (hind * 2 - zi) old i j = old"
    by (rule block_entry_outside) (use Cons.prems in simp)
  then show ?case using Cons by simp
qed

lemma loop_entry_inside:
  assumes "hind0 \<in> set hinds" "distinct hinds" "\<And>hind. hind \<in> set hinds \<Longrightarrow> zi \<le> hind" "zi \<le> 1"
    and "i div nd \<in> {hind0 * 2 - zi, hind0 * 2 - zi + 1}"
  shows "loop_entry M C K w h include_KM nd zi hinds old i j
       = block_entry M C K w include_KM nd (h ! hind0) (hind0 * 2 - zi) old i j"
  using assms(1-3)
proof (induction hinds arbitrary: old)
  case Nil
  then show ?case by simp
next
  case (Cons hind hinds)
  show ?case
  proof (cases "hind = hind0")
    case True
    have "loop_entry M C K w h include_KM nd zi hinds
        (block_entry M C K w include_KM nd (h ! hind0) (hind0 * 2 - zi) old i j) i j
      = block_entry M C K w include_KM nd (h ! hind0) (hind0 * 2 - zi) old i j"
    proof (rule loop_entry_outside)
      fix hd' assume m: "hd' \<in> set hinds"
      with Cons.prems True have "hd' \<noteq> hind0" "zi \<le> hd'" "zi \<le> hind0" by auto
      with assms(4,5) show "\<not> (i div nd \<in> {hd' * 2 - zi, hd' * 2 - zi + 1} \<and> j div nd \<in> {hd' * 2 - zi, hd' * 2 - zi + 1})"
        by auto
    qed
    then show ?thesis using True by simp
  next
    case False
    with Cons.prems have m: "hind0 \<in> set hinds" "distinct hinds" "zi \<le> hind" "zi \<le> hind0" by auto
    have "block_entry M C K w include_KM nd (h ! hind) (hind * 2 - zi) old i j = old"
      by (rule block_entry_outside) (use False m assms(4,5) in auto)
    then show ?thesis using Cons.IH[OF m(1,2)] Cons.prems(3) by simp
  qed
qed

lemma rzeros_shape: "has_shape m n (rzeros m n)"
  by (simp add: has_shape_def rzeros_def list_all_length)

lemma rzeros_nth: "i < m \<Longrightarrow> j < n \<Longrightarrow> rzeros m n ! i ! j = 0"
  by (simp add: rzeros_def)

lemma Nhc_zero_first:
  assumes "h \<noteq> []" "distinct h" "0 \<notin> set (tl h)"
  shows "Nhc h = Inr (2 * length h - (if hd h = 0 then 1 else 0))"
proof -
  obtain h0 hs where h: "h = h0 # hs" using assms(1) by (cases h) auto
  with assms(3) have "filter (\<lambda>k. k \<noteq> 0) hs = hs" "filter (\<lambda>k. k = 0) hs = []"
    by (auto simp add: filter_id_conv filter_empty_conv)
  moreover have "length (remdups h) = length h" using assms(2) by (simp add: distinct_remdups_id)
  ultimately show ?thesis using h by (simp add: Nhc_def)
qed

lemma stiffness_blocks_only_C:
  "stiffness_blocks M' C K' w False nd k b E = stiffness_blocks M C K w False nd k b E"
  by (simp add: stiffness_blocks_def)

lemma gradient_blocks_only_C:
  "gradient_blocks M' C w False nd k b D = gradient_blocks M C w False nd k b D"
  by (simp add: gradient_blocks_def)

lemma stiffness_loop_only_C:
  "stiffness_loop M' C K' w h calc_grad False nd zi hinds acc
   = stiffness_loop M C K w h calc_grad False nd zi hinds acc"
proof (induction hinds arbitrary: acc)
  case Nil
  then show ?case by simp
next
  case (Cons hind hinds)
  obtain E D where acc: "acc = (E, D)" by (cases acc)
  show ?case unfolding acc stiffness_loop.simps
    by (simp only: Cons.IH stiffness_blocks_only_C[of M' C K' w nd _ _ _ M K]
        gradient_blocks_only_C[of M' C w nd _ _ _ M])
qed

lemma harmonic_stiffness_only_C:
  "harmonic_stiffness M' C K' w h calc_grad True = harmonic_stiffness M C K w h calc_grad True"
proof (cases h)
  case Nil
  then show ?thesis by (simp add: harmonic_stiffness_def Let_def)
next
  case (Cons h0 hs)
  then show ?thesis
    by (simp add: harmonic_stiffness_def Let_def stiffness_loop_only_C[of M' C K' w _ calc_grad _ _ _ _ M K])
qed


lemma harmonic_stiffness_unfold:
  assumes "h \<noteq> []" "Nhc h = Inr N" "zi = (if hd h = 0 then 1 else 0)" "length C = nd"
    "n = N * nd" "iKM = (\<not> only_C)"
  shows "harmonic_stiffness M C K w h calc_grad only_C =
     bindE (if zi = 1 \<and> iKM then set_block (rzeros n n) 0 0 nd K else Inr (rzeros n n))
       (\<lambda>E0. stiffness_loop M C K w h calc_grad iKM nd zi [zi..<length h]
               (E0, if calc_grad then Some (rzeros n n) else None))"
proof -
  obtain h0 hs where h: "h = h0 # hs" using assms(1) by (cases h) auto
  show ?thesis
    unfolding assms(3,5,6) assms(4)[symmetric] h
    using assms(2)[unfolded h]
    by (simp add: harmonic_stiffness_def Let_def bindE_def)
qed

lemma block_index: "i < nd \<Longrightarrow> (nd * b + i) div nd = b \<and> (nd * b + i) mod nd = i" for nd :: nat
  by simp

text \<open>
  C3.  Let \<open>h\<close> be a valid harmonic list (not empty, without duplicates, zero only in first
  place), \<open>C\<close> an \<open>nd\<close> by \<open>nd\<close> matrix and, unless \<open>only_C\<close> is set, \<open>M\<close> and \<open>K\<close> too; \<open>zi\<close>
  is 1 when the zeroth harmonic is included and 0 otherwise.  Then \<open>harmonic_stiffness\<close>
  returns a square matrix \<open>E\<close> of \<open>Nhc * nd\<close> rows in which
  \<^item> the first diagonal block is \<open>K\<close> when the zeroth harmonic is included (zero under
    \<open>only_C\<close>);
  \<^item> for every index \<open>hind\<close> of a nonzero harmonic \<open>k = h[hind]\<close>, the two-by-two blocks
    starting at block index \<open>hind*2 - zi\<close> are \<open>k w C\<close> at the top right, \<open>- k w C\<close> at the bottom
    left, and \<open>K - (k w)\<^sup>2 M\<close> on the diagonal (zero under \<open>only_C\<close>);
  \<^item> every entry that pairs components of two different harmonics is zero;
  \<^item> under \<open>only_C\<close> the result is the same whatever is passed for \<open>M\<close> and \<open>K\<close>.
\<close>

theorem harmonic_stiffness_blocks:
  assumes h: "h \<noteq> []" "distinct h" "0 \<notin> set (tl h)"
    and C: "has_shape nd nd C"
    and KM: "\<not> only_C \<Longrightarrow> has_shape nd nd M \<and> has_shape nd nd K"
    and zi: "zi = (if hd h = 0 then 1 else 0)"
  shows "\<exists>E dEdw. harmonic_stiffness M C K w h calc_grad only_C = Inr (E, dEdw)
      \<and> has_shape ((2 * length h - zi) * nd) ((2 * length h - zi) * nd) E
      \<and> (zi = 1 \<longrightarrow> (\<forall>i<nd. \<forall>j<nd. E ! i ! j = (if only_C then 0 else K ! i ! j)))
      \<and> (\<forall>hind. zi \<le> hind \<and> hind < length h \<longrightarrow> (\<forall>i<nd. \<forall>j<nd.
            E ! (nd * (hind * 2 - zi) + i) ! (nd * (hind * 2 - zi + 1) + j)
              = real_of_int (h ! hind) * w * C ! i ! j
          \<and> E ! (nd * (hind * 2 - zi + 1) + i) ! (nd * (hind * 2 - zi) + j)
              = - (real_of_int (h ! hind) * w) * C ! i ! j
          \<and> E ! (nd * (hind * 2 - zi) + i) ! (nd * (hind * 2 - zi) + j)
              = (if only_C then 0 else K ! i ! j - (real_of_int (h ! hind) * w)\<^sup>2 * M ! i ! j)
          \<and> E ! (nd * (hind * 2 - zi + 1) + i) ! (nd * (hind * 2 - zi + 1) + j)
              = (if only_C then 0 else K ! i ! j - (real_of_int (h ! hind) * w)\<^sup>2 * M ! i ! j)))
      \<and> (\<forall>i j. i < length E \<and> j < length E \<and> (i div nd + zi) div 2 \<noteq> (j div nd + zi) div 2
            \<longrightarrow> E ! i ! j = 0)
      \<and> (only_C \<longrightarrow> (\<forall>M' K'. harmonic_stiffness M' C K' w h calc_grad only_C = Inr (E, dEdw)))"
proof -
  define n where "n = (2 * length h - zi) * nd"
  define iKM where "iKM = (\<not> only_C)"
  let ?E00 = "rzeros n n"
  let ?dE0 = "if calc_grad then Some (rzeros n n) else None"
  obtain h0 hs where hh: "h = h0 # hs" using h(1) by (cases h) auto
  have zi1: "zi \<le> 1" and zih: "zi = (if h0 = 0 then 1 else 0)" using zi hh by simp_all
  have lenC: "length C = nd" using C by (simp add: has_shape_def)
  have nhc: "Nhc h = Inr (2 * length h - zi)" using Nhc_zero_first[OF h] zi by simp
  have KM': "iKM \<Longrightarrow> has_shape nd nd M \<and> has_shape nd nd K" using KM by (simp add: iKM_def)
  have s00: "has_shape n n ?E00" by (simp add: rzeros_shape)
  have one: "1 \<le> 2 * length h - zi" using zi1 hh by auto
  have ndn: "nd \<le> n" using mult_le_mono1[OF one, of nd] by (simp add: n_def)
  \<comment> \<open>the zeroth harmonic\<close>
  have "\<exists>E0. (if zi = 1 \<and> iKM then set_block ?E00 0 0 nd K else Inr ?E00) = Inr E0 \<and> has_shape n n E0
      \<and> (0 < nd \<longrightarrow> (\<forall>i<n. \<forall>j<n. E0 ! i ! j =
            (if zi = 1 \<and> iKM \<and> i div nd = 0 \<and> j div nd = 0 then K ! (i mod nd) ! (j mod nd) else 0)))"
  proof (cases "zi = 1 \<and> iKM")
    case True
    then have K: "has_shape nd nd K" using KM' by simp
    have le: "nd * 0 + nd \<le> n" using ndn by simp
    from set_block_div[OF s00 le le K] True show ?thesis
      by (auto simp add: rzeros_nth)
  next
    case False
    then show ?thesis using s00 by (auto simp add: rzeros_nth)
  qed
  then obtain E0 where E0: "(if zi = 1 \<and> iKM then set_block ?E00 0 0 nd K else Inr ?E00) = Inr E0"
    "has_shape n n E0"
    "0 < nd \<longrightarrow> (\<forall>i<n. \<forall>j<n. E0 ! i ! j =
        (if zi = 1 \<and> iKM \<and> i div nd = 0 \<and> j div nd = 0 then K ! (i mod nd) ! (j mod nd) else 0))"
    by blast
  \<comment> \<open>the loop\<close>
  have dshape: "\<forall>D0. ?dE0 = Some D0 \<longrightarrow> has_shape n n D0" by (simp add: rzeros_shape)
  have bnd: "\<forall>hind \<in> set [zi..<length h]. nd * (hind * 2 - zi + 2) \<le> n"
  proof
    fix hind assume "hind \<in> set [zi..<length h]"
    then have "hind * 2 - zi + 2 \<le> 2 * length h - zi" by auto
    then have "nd * (hind * 2 - zi + 2) \<le> nd * (2 * length h - zi)" by (rule mult_le_mono2)
    then show "nd * (hind * 2 - zi + 2) \<le> n" by (simp only: n_def mult.commute)
  qed
  from stiffness_loop_ok[where w=w and h=h and calc_grad=calc_grad, OF E0(2) dshape bnd C KM']
  obtain E dEdw where
    loop: "stiffness_loop M C K w h calc_grad iKM nd zi [zi..<length h] (E0, ?dE0) = Inr (E, dEdw)"
    and sE: "has_shape n n E"
    and ent: "0 < nd \<longrightarrow> (\<forall>i<n. \<forall>j<n. E ! i ! j =
        loop_entry M C K w h iKM nd zi [zi..<length h] (E0 ! i ! j) i j)"
    by blast
  have res: "harmonic_stiffness M C K w h calc_grad only_C = Inr (E, dEdw)"
    unfolding harmonic_stiffness_unfold[OF h(1) nhc zi lenC n_def iKM_def] E0(1)
    by (simp add: bindE_def loop)
  have lenE: "length E = n" using sE by (simp add: has_shape_def)
  \<comment> \<open>entries of a block of a nonzero harmonic\<close>
  have inside: "E ! (nd * b + i) ! (nd * c + j)
      = (if b = hind * 2 - zi \<and> c = hind * 2 - zi + 1 then real_of_int (h ! hind) * w * C ! i ! j
         else if b = hind * 2 - zi + 1 \<and> c = hind * 2 - zi then - (real_of_int (h ! hind) * w) * C ! i ! j
         else if iKM then K ! i ! j - (real_of_int (h ! hind) * w)\<^sup>2 * M ! i ! j
         else 0)"
    if hind: "zi \<le> hind" "hind < length h" and ij: "i < nd" "j < nd"
      and b: "b \<in> {hind * 2 - zi, hind * 2 - zi + 1}" and c: "c \<in> {hind * 2 - zi, hind * 2 - zi + 1}"
    for hind i j b c
  proof -
    have nd: "0 < nd" using ij by simp
    have "b + 1 \<le> 2 * length h - zi" using hind b by auto
    then have bb: "nd * (b + 1) \<le> nd * (2 * length h - zi)" by (rule mult_le_mono2)
    have "c + 1 \<le> 2 * length h - zi" using hind c by auto
    then have "nd * (c + 1) \<le> nd * (2 * length h - zi)" by (rule mult_le_mono2)
    with bb have "nd * (b + 1) \<le> nd * (2 * length h - zi)" "nd * (c + 1) \<le> nd * (2 * length h - zi)"
      by blast+
    then have "nd * (b + 1) \<le> n" "nd * (c + 1) \<le> n" by (simp_all only: n_def mult.commute)
    then have lt: "nd * b + i < n" "nd * c + j < n" using ij by simp_all
    define I where "I = nd * b + i"
    define J where "J = nd * c + j"
    have lt': "I < n" "J < n" using lt by (simp_all add: I_def J_def)
    have dv: "I div nd = b" "J div nd = c" and md: "I mod nd = i" "J mod nd = j"
      using ij by (simp_all add: I_def J_def)
    have b1: "\<not> (zi = 1 \<and> b = 0)" using b hind(1) by auto
    have "E ! I ! J = loop_entry M C K w h iKM nd zi [zi..<length h] (E0 ! I ! J) I J"
      using ent nd lt' by blast
    also have "\<dots> = block_entry M C K w iKM nd (h ! hind) (hind * 2 - zi) (E0 ! I ! J) I J"
      by (rule loop_entry_inside) (use hind zi1 b dv in auto)
    also have "E0 ! I ! J = 0"
      using E0(3) nd lt' dv b1 by auto
    finally have "E ! I ! J = block_entry M C K w iKM nd (h ! hind) (hind * 2 - zi) 0 I J" .
    then have "E ! I ! J
      = (if b = hind * 2 - zi \<and> c = hind * 2 - zi + 1 then real_of_int (h ! hind) * w * C ! i ! j
         else if b = hind * 2 - zi + 1 \<and> c = hind * 2 - zi then - (real_of_int (h ! hind) * w) * C ! i ! j
         else if iKM then K ! i ! j - (real_of_int (h ! hind) * w)\<^sup>2 * M ! i ! j
         else 0)"
      using b c by (auto simp add: block_entry_def dv md)
    then show ?thesis by (simp only: I_def J_def)
  qed
  have blocks: "E ! (nd * (hind * 2 - zi) + i) ! (nd * (hind * 2 - zi + 1) + j)
              = real_of_int (h ! hind) * w * C ! i ! j
          \<and> E ! (nd * (hind * 2 - zi + 1) + i) ! (nd * (hind * 2 - zi) + j)
              = - (real_of_int (h ! hind) * w) * C ! i ! j
          \<and> E ! (nd * (hind * 2 - zi) + i) ! (nd * (hind * 2 - zi) + j)
              = (if only_C then 0 else K ! i ! j - (real_of_int (h ! hind) * w)\<^sup>2 * M ! i ! j)
          \<and> E ! (nd * (hind * 2 - zi + 1) + i) ! (nd * (hind * 2 - zi + 1) + j)
              = (if only_C then 0 else K ! i ! j - (real_of_int (h ! hind) * w)\<^sup>2 * M ! i ! j)"
    if hind: "zi \<le> hind \<and> hind < length h" and ij: "i < nd" "j < nd" for hind i j
  proof -
    have dv: "\<And>b. (nd * b + i) div nd = b" "\<And>b. (nd * b + j) div nd = b" using ij by simp_all
    show ?thesis
      using inside[of hind i j "hind * 2 - zi" "hind * 2 - zi + 1"]
        inside[of hind i j "hind * 2 - zi + 1" "hind * 2 - zi"]
        inside[of hind i j "hind * 2 - zi" "hind * 2 - zi"]
        inside[of hind i j "hind * 2 - zi + 1" "hind * 2 - zi + 1"] hind ij
      by (simp add: iKM_def)
  qed
  \<comment> \<open>entries outside the blocks of the nonzero harmonics\<close>
  have outside: "E ! i ! j = E0 ! i ! j"
    if ij: "i < n" "j < n" and g: "(i div nd + zi) div 2 < zi \<or> (i div nd + zi) div 2 \<noteq> (j div nd + zi) div 2"
    for i j
  proof -
    have nd: "0 < nd" using ij ndn by (cases "nd = 0") (simp_all add: n_def)
    have "E ! i ! j = loop_entry M C K w h iKM nd zi [zi..<length h] (E0 ! i ! j) i j"
      using ent nd ij by blast
    also have "\<dots> = E0 ! i ! j"
    proof (rule loop_entry_outside)
      fix hind assume "hind \<in> set [zi..<length h]"
      then have "zi \<le> hind" by simp
      with g zi1 show "\<not> (i div nd \<in> {hind * 2 - zi, hind * 2 - zi + 1} \<and> j div nd \<in> {hind * 2 - zi, hind * 2 - zi + 1})"
        by auto
    qed
    finally show ?thesis .
  qed
  have zero_block: "E ! i ! j = (if only_C then 0 else K ! i ! j)" if z: "zi = 1" and ij: "i < nd" "j < nd" for i j
  proof -
    have "i < n" "j < n" using ij ndn by simp_all
    moreover have "(i div nd + zi) div 2 < zi" using z ij by simp
    ultimately have "E ! i ! j = E0 ! i ! j" using outside by blast
    also have "\<dots> = (if only_C then 0 else K ! i ! j)"
      using E0(3) ij \<open>i < n\<close> \<open>j < n\<close> z by (simp add: iKM_def)
    finally show ?thesis .
  qed
  have zeros_elsewhere: "E ! i ! j = 0"
    if ij: "i < length E" "j < length E" and g: "(i div nd + zi) div 2 \<noteq> (j div nd + zi) div 2" for i j
  proof -
    have ij': "i < n" "j < n" using ij lenE by simp_all
    have nd: "0 < nd" using ij' by (cases "nd = 0") (simp_all add: n_def)
    have "E ! i ! j = E0 ! i ! j" using outside[OF ij'] g by blast
    also have "\<dots> = 0"
    proof -
      have "\<not> (i div nd = 0 \<and> j div nd = 0)" using g by auto
      then show ?thesis using E0(3) nd ij' by auto
    qed
    finally show ?thesis .
  qed
  have indep: "harmonic_stiffness M' C K' w h calc_grad only_C = Inr (E, dEdw)" if "only_C" for M' K'
    using that res harmonic_stiffness_only_C[of M' C K' w h calc_grad M K] by simp
  show ?thesis
    using res sE blocks zero_block zeros_elsewhere indep unfolding n_def by blast
qed

theorem harmonic_stiffness_blocks_witness:
  "\<exists>E dEdw. harmonic_stiffness [[2]] [[3]] [[5]] 2 [0, 1] False False = Inr (E, dEdw)
     \<and> E ! 0 ! 0 = 5 \<and> E ! 1 ! 2 = 6 \<and> E ! 2 ! 1 = - 6 \<and> E ! 1 ! 1 = - 3 \<and> E ! 2 ! 2 = - 3
     \<and> E ! 0 ! 1 = 0 \<and> E ! 2 ! 0 = 0"
proof -
  have a: "[0, 1 :: int] \<noteq> []" "distinct [0, 1 :: int]" "0 \<notin> set (tl [0, 1 :: int])" by simp_all
  have b: "has_shape 1 1 [[3 :: real]]" by (simp add: has_shape_def)
  have c: "\<not> False \<Longrightarrow> has_shape 1 1 [[2 :: real]] \<and> has_shape 1 1 [[5 :: real]]"
    by (simp add: has_shape_def)
  have d: "(1 :: nat) = (if hd [0, 1 :: int] = 0 then 1 else 0)" by simp
  from harmonic_stiffness_blocks[where w=2 and calc_grad=False and only_C=False and M="[[2]]" and K="[[5]]", OF a b c d]
  obtain E dEdw where r: "harmonic_stiffness [[2]] [[3]] [[5]] 2 [0, 1] False False = Inr (E, dEdw)"
    and z: "\<forall>i<1. \<forall>j<1. E ! i ! j = (if False then 0 else [[5 :: real]] ! i ! j)"
    and k: "\<forall>hind. 1 \<le> hind \<and> hind < length [0, 1 :: int] \<longrightarrow> (\<forall>i<1. \<forall>j<1.
            E ! (1 * (hind * 2 - 1) + i) ! (1 * (hind * 2 - 1 + 1) + j)
              = real_of_int ([0, 1] ! hind) * 2 * [[3 :: real]] ! i ! j
          \<and> E ! (1 * (hind * 2 - 1 + 1) + i) ! (1 * (hind * 2 - 1) + j)
              = - (real_of_int ([0, 1] ! hind) * 2) * [[3 :: real]] ! i ! j
          \<and> E ! (1 * (hind * 2 - 1) + i) ! (1 * (hind * 2 - 1) + j)
              = (if False then 0 else [[5 :: real]] ! i ! j - (real_of_int ([0, 1] ! hind) * 2)\<^sup>2 * [[2 :: real]] ! i ! j)
          \<and> E ! (1 * (hind * 2 - 1 + 1) + i) ! (1 * (hind * 2 - 1 + 1) + j)
              = (if False then 0 else [[5 :: real]] ! i ! j - (real_of_int ([0, 1] ! hind) * 2)\<^sup>2 * [[2 :: real]] ! i ! j))"
    and o: "\<forall>i j. i < length E \<and> j < length E \<and> (i div 1 + 1) div 2 \<noteq> (j div 1 + 1) div 2 \<longrightarrow> E ! i ! j = 0"
    and s: "has_shape ((2 * length [0, 1 :: int] - 1) * 1) ((2 * length [0, 1 :: int] - 1) * 1) E"
    by auto
  from s have len: "length E = 3" by (simp add: has_shape_def)
  from z have "E ! 0 ! 0 = 5" by simp
  moreover from k[rule_format, of 1 0 0]
  have "E ! 1 ! 2 = 6 \<and> E ! 2 ! 1 = - 6 \<and> E ! 1 ! 1 = - 3 \<and> E ! 2 ! 2 = - 3"
    by (simp add: numeral_2_eq_2)
  moreover from o[rule_format, of 0 1] len have "E ! 0 ! 1 = 0" by simp
  moreover from o[rule_format, of 2 0] len have "E ! 2 ! 0 = 0" by simp
  ultimately show ?thesis using r by blast
qed

subsection \<open>Validation of the harmonic list and of the number of time samples\<close>

















section \<open>Properties of continuation\<close>

subsection \<open>The constructor and the caller's list of FracLam values\<close>

text \<open>
  C10.  When the caller's configuration holds a list \<open>FracLamList\<close> (the list at address
  \<open>a\<close> of the store) that is empty or does not start with the configured \<open>FracLam\<close>, the
  constructor inserts \<open>FracLam\<close> at index 0 of that very list: the object's \<open>FracLamList\<close>
  is the caller's list, the list in the store is longer by the new first element, and no
  other list of the caller changes.  A second construction from the same configuration
  works on the list as the first one left it: it shares it, and leaves it as it is (unless
  \<open>FracLam\<close> is NaN, which is not equal to itself, so that it is inserted once more).
\<close>

theorem init_inserts_FracLam_into_callers_list:
  assumes lst: "u_FracLamList u = Some a" and a: "a < length hp"
      and start: "hp ! a = [] \<or> \<not> feq (hp ! a ! 0) (dflt (Fin (1 / 2)) (u_FracLam u))"
      and first: "Continuation_init hp slv ds0_arg CtoP_arg RPtoC_arg u = (hp1, c1)"
      and second: "Continuation_init hp1 slv' ds0_arg' CtoP_arg' RPtoC_arg' u = (hp2, c2)"
  shows "FracLamList (config c1) = a
       \<and> FracLam (config c1) = dflt (Fin (1 / 2)) (u_FracLam u)
       \<and> hp1 ! a = FracLam (config c1) # hp ! a
       \<and> hp1 ! a \<noteq> hp ! a
       \<and> (\<forall>b<length hp. b \<noteq> a \<longrightarrow> hp1 ! b = hp ! b)
       \<and> FracLamList (config c2) = a
       \<and> (\<not> isnan (FracLam (config c1)) \<longrightarrow> hp2 ! a = hp1 ! a)
       \<and> (isnan (FracLam (config c1)) \<longrightarrow> hp2 ! a = FracLam (config c1) # hp1 ! a)"
proof -
  let ?b = "dflt (Fin (1 / 2)) (u_FracLam u)"
  have cfg: "FracLamList (default_config d n u) = a" "FracLam (default_config d n u) = ?b" for d n
    using lst by (simp_all add: default_config_def dflt_def)
  have test: "length ((hp @ [[]]) ! a) = 0 \<or> \<not> feq ((hp @ [[]]) ! a ! 0) ?b"
    using start a by (simp add: nth_append)
  have hp1: "hp1 = (hp @ [[]])[a := ?b # hp ! a]" and c1: "config c1 = default_config ds0_arg (length hp) u"
    using first test a unfolding Continuation_init_def Let_def cfg
    by (auto simp add: nth_append)
  have l1: "length hp1 = Suc (length hp)" and a1: "hp1 ! a = ?b # hp ! a"
    using a by (simp_all add: hp1 nth_append)
  have a1': "(hp1 @ [[]]) ! a = ?b # hp ! a"
    using a a1 l1 by (simp add: nth_append)
  have feq: "feq ?b ?b = (\<not> isnan ?b)" by (simp add: feq_def)
  have hp2: "hp2 = (if \<not> isnan ?b then hp1 @ [[]] else (hp1 @ [[]])[a := ?b # ?b # hp ! a])"
    and c2: "config c2 = default_config ds0_arg' (length hp1) u"
    using second unfolding Continuation_init_def Let_def cfg a1'
    by (auto simp add: feq)
  have frame: "\<forall>b<length hp. b \<noteq> a \<longrightarrow> hp1 ! b = hp ! b"
    by (simp add: hp1 nth_append)
  have "hp2 ! a = (if \<not> isnan ?b then hp1 ! a else ?b # hp1 ! a)"
    using a l1 a1 by (simp add: hp2 nth_append)
  with frame a1 show ?thesis by (simp add: c1 c2 cfg)
qed

theorem init_inserts_FracLam_into_callers_list_witness:
  "fst (Continuation_init [[Fin (1 / 4)]] idle_solver (Fin 1) None None ladder_user_config)
     = [[Fin (1 / 2), Fin (1 / 4)], []]
   \<and> FracLamList (config (snd (Continuation_init [[Fin (1 / 4)]] idle_solver (Fin 1) None
         None ladder_user_config))) = 0
   \<and> fst (Continuation_init [[Fin (1 / 2), Fin (1 / 4)], []] idle_solver (Fin 1) None None
         ladder_user_config) ! 0 = [Fin (1 / 2), Fin (1 / 4)]
   \<and> FracLamList (config (snd (Continuation_init [[Fin (1 / 2), Fin (1 / 4)], []] idle_solver
         (Fin 1) None None ladder_user_config))) = 0"
proof -
  let ?r1 = "Continuation_init [[Fin (1 / 4)]] idle_solver (Fin 1) None None ladder_user_config"
  let ?r2 = "Continuation_init (fst ?r1) idle_solver (Fin 1) None None ladder_user_config"
  have l: "u_FracLamList ladder_user_config = Some 0"
    by (simp add: ladder_user_config_def)
  have a: "0 < length [[Fin (1 / 4)]]" by simp
  have d: "dflt (Fin (1 / 2)) (u_FracLam ladder_user_config) = Fin (1 / 2)"
    by (simp add: dflt_def ladder_user_config_def empty_user_config_def)
  have s: "[[Fin (1 / 4)]] ! 0 = []
           \<or> \<not> feq ([[Fin (1 / 4)]] ! 0 ! 0) (dflt (Fin (1 / 2)) (u_FracLam ladder_user_config))"
    unfolding d by (simp add: feq_def)
  have h: "fst ?r1 = [[Fin (1 / 2), Fin (1 / 4)], []]"
    by (simp add: Continuation_init_def default_config_def dflt_def feq_def
        ladder_user_config_def empty_user_config_def)
  have r1: "?r1 = (fst ?r1, snd ?r1)" and r2: "?r2 = (fst ?r2, snd ?r2)" by simp_all
  note T = init_inserts_FracLam_into_callers_list[OF l a s r1 r2]
  note c1 = T[THEN conjunct1]
  note c2 = T[THEN conjunct2, THEN conjunct1]
  note c6 = T[THEN conjunct2, THEN conjunct2, THEN conjunct2, THEN conjunct2, THEN conjunct2,
              THEN conjunct1]
  note c7 = T[THEN conjunct2, THEN conjunct2, THEN conjunct2, THEN conjunct2, THEN conjunct2,
              THEN conjunct2, THEN conjunct1]
  have n: "\<not> isnan (FracLam (config (snd ?r1)))"
    unfolding c2 d by simp
  have "fst ?r2 ! 0 = fst ?r1 ! 0"
    using c7 n by (rule mp)
  then have e: "fst ?r2 ! 0 = [Fin (1 / 2), Fin (1 / 4)]"
    unfolding h by simp
  show ?thesis
    using h c1 c6[unfolded h] e[unfolded h] by (intro conjI)
qed

subsection \<open>Dynamic conditioning\<close>

lemmas cont_eval =
  bindE_def np_sum_def vscale_def vdivs_def vzip_def vadd_def vsub_def vmul_def vdiv_def dot_def
  zeros_def bound_def Let_def inf_of_sign_def fgt_def feq_def sq_def norm2_def py_last_def
  np_maximum_def np_abs_def np_amax_def np_diag_def scale_columns_def hstack_column_def
  vstack_row_def unpack3_def dflt_def default_config_def Continuation_init_def attr_def
  conditioned_gradient_def np_mean_def predict_def solve_corrector_def dynamic_CtoP_def
  continuation_step_def in_range_def initial_RPtoC_def prepare_object_def initial_solve_def
  first_point_def final_callback_def continuation_run_def empty_user_config_def
  py_max_def py_min_def np_maximum1_def ncols_def retry_smaller_steps.simps fsub_def
  eval_nat_numeral

lemma bindE_Inr: "bindE m g = Inr y \<longleftrightarrow> (\<exists>x. m = Inr x \<and> g x = Inr y)"
  by (cases m) (simp_all add: bindE_def)

lemma predict_frame:
  assumes "predict slf f p0 pprev d0 = Inr (d, slf')"
  shows "\<exists>rp. slf' = slf\<lparr>RPtoC := rp\<rparr>"
  using assms unfolding predict_def Let_def
  by (auto simp add: bindE_Inr split: prod.splits if_splits)

lemma fraclam_loop_frame:
  assumes "fraclam_loop f fls st = Some (Inr st')"
  shows "CtoP (self st') = CtoP (self st) \<and> CtoP0 (self st') = CtoP0 (self st)
       \<and> DynamicCtoP (config (self st')) = DynamicCtoP (config (self st))
       \<and> XlamP_full st' = XlamP_full st"
  using assms
proof (induction fls arbitrary: st)
  case Nil
  then show ?case by simp
next
  case (Cons b bs)
  let ?s1 = "(self st)\<lparr>config := (config (self st))\<lparr>FracLam := b\<rparr>\<rparr>"
  from Cons.prems obtain d self2 where p: "predict ?s1 f (XlamP0 st) (XlamPprev st) (dirC st) = Inr (d, self2)"
    by (auto simp add: Let_def split: sum.splits)
  from predict_frame[OF p] obtain rp where s2: "self2 = ?s1\<lparr>RPtoC := rp\<rparr>" by blast
  from Cons.prems p obtain ds' xc s where
    r: "success s \<and> st' = st\<lparr>self := self2, dirC := d, ds := ds', XlamC := Some xc, sol_c := s\<rparr>
        \<or> fraclam_loop f bs (st\<lparr>self := self2, dirC := d, ds := ds', XlamC := Some xc, sol_c := s\<rparr>) = Some (Inr st')"
    by (auto simp add: Let_def split: sum.splits option.splits prod.splits if_splits)
  from r show ?case
  proof
    assume "success s \<and> st' = st\<lparr>self := self2, dirC := d, ds := ds', XlamC := Some xc, sol_c := s\<rparr>"
    then show ?thesis by (simp add: s2)
  next
    assume "fraclam_loop f bs (st\<lparr>self := self2, dirC := d, ds := ds', XlamC := Some xc, sol_c := s\<rparr>) = Some (Inr st')"
    from Cons.IH[OF this] show ?thesis by (simp add: s2)
  qed
qed

lemma np_maximum1_not_below: "\<not> flt (np_maximum1 a b) b"
  by (cases a; cases b) (simp_all add: np_maximum1_def)

lemma dynamic_CtoP_entries:
  assumes "dynamic_CtoP point fl = Inr c"
  shows "length c = length fl \<and> length point = length fl
       \<and> (\<forall>i<length c. c ! i = np_maximum1 (fabs (point ! i)) (fl ! i) \<and> \<not> flt (c ! i) (fl ! i))"
  using assms
  by (auto simp add: dynamic_CtoP_def np_maximum_def vzip_def np_abs_def np_maximum1_not_below
      split: if_splits)

lemma first_point_sets_floor:
  assumes "first_point slf p lam0 lam1 res = Inr (direct, st0)" and "DynamicCtoP (config slf)"
  shows "CtoP0 (self st0) = CtoP slf \<and> CtoP (self st0) = CtoP slf"
  using assms unfolding first_point_def Let_def
  by (auto simp add: bindE_Inr split: prod.splits if_splits)

text \<open>
  C5 (amended).  With dynamic conditioning, in every pass of the step loop that ends with an
  accepted point or with the stop after a failed corrector, \<open>CtoP\<close> is
  \<open>np.maximum(|last stored point|, CtoP0)\<close>: every entry is the larger of the magnitude of
  the point's entry and the floor's entry, so no entry is below the floor \<open>CtoP0\<close>, and the
  floor itself and the flag are as before the step.  (By \<open>first_point_sets_floor\<close> the
  floor is the \<open>CtoP\<close> of the start of the run.)  The entries are not monotone over the steps: an entry follows the magnitude
  of the point, also downwards, as long as it stays above the floor.
\<close>

theorem dynamic_CtoP_is_floored_at_every_step:
  assumes dyn: "DynamicCtoP (config (self st))"
      and fl: "CtoP0 (self st) = Some floor_CtoP"
      and step: "continuation_step hp f silent st = Some (Inr (Next st'))
                 \<or> continuation_step hp f silent st = Some (Inr (Break st'))"
  shows "DynamicCtoP (config (self st')) \<and> CtoP0 (self st') = Some floor_CtoP
       \<and> XlamP_full st \<noteq> []
       \<and> (\<exists>c. CtoP (self st') = Some c
              \<and> dynamic_CtoP (last (XlamP_full st)) floor_CtoP = Inr c
              \<and> length c = length floor_CtoP
              \<and> (\<forall>i<length c. c ! i = np_maximum1 (fabs (last (XlamP_full st) ! i)) (floor_CtoP ! i)
                               \<and> \<not> flt (c ! i) (floor_CtoP ! i)))"
proof -
  from step have ne: "XlamP_full st \<noteq> []"
    using dyn fl
    by (auto simp add: continuation_step_def attr_def bindE_def py_last_def split: if_splits)
  from step dyn fl ne obtain c where c: "dynamic_CtoP (last (XlamP_full st)) floor_CtoP = Inr c"
    by (cases "dynamic_CtoP (last (XlamP_full st)) floor_CtoP")
       (auto simp add: continuation_step_def attr_def bindE_def py_last_def)
  let ?st1 = "st\<lparr>self := (self st)\<lparr>CtoP := Some c\<rparr>\<rparr>"
  let ?L = "fraclam_loop f (hp ! FracLamList (config (self st))) ?st1"
  have unf: "continuation_step hp f silent st =
      (case ?L of None \<Rightarrow> None | Some (Inl e) \<Rightarrow> Some (Inl e)
       | Some (Inr st2) \<Rightarrow>
           if \<not> success (sol_c st2) \<and> \<not> silent then Some (Inr (Break st2))
           else Some (
                 bindE (attr (CtoP (self st2))) (\<lambda>ctop.
                 bindE (bound (XlamC st2)) (\<lambda>xc.
                 bindE (vmul ctop xc) (\<lambda>point.
                 if length point \<noteq> length (hd (XlamP_full st2)) then Inl ValueError
                 else if nfev (sol_c st2) = 0 then Inl ZeroDivisionError
                 else
                   let cfg = config (self st2);
                       ds1 = fmul (ds st2)
                               (py_min (fdiv (Fin (real_of_int (TargetNfev cfg)))
                                             (Fin (real (nfev (sol_c st2)))))
                                       (MaxIncrease cfg));
                       ds2 = py_min (py_max ds1 (dsmin cfg)) (dsmax cfg)
                   in
                   bindE (if callback cfg
                          then bindE (vmul (dirC st2) ctop) (\<lambda>dirP.
                                 Inr (calls st2 @ [(point, dirP)]))
                          else Inr (calls st2)) (\<lambda>log.
                     Inr (Next (st2\<lparr>XlamP_full := XlamP_full st2 @ [point],
                                     ds := ds2,
                                     calls := log,
                                     XlamPprev := XlamP0 st2,
                                     XlamP0 := point\<rparr>))))))))"
    using dyn fl ne c by (simp add: continuation_step_def attr_def bindE_def py_last_def)
  from step obtain st2 where l: "?L = Some (Inr st2)"
    and st': "self st' = self st2"
    unfolding unf
    by (auto simp add: bindE_Inr Let_def split: option.splits sum.splits if_splits)
  from fraclam_loop_frame[OF l] dyn fl st' dynamic_CtoP_entries[OF c] c ne
  show ?thesis by (simp add: np_maximum1_not_below)
qed

theorem dynamic_CtoP_is_floored_at_every_step_witness:
  "continuation_step [[Fin 1]] flat_residual False dynamic_state0
     = Some (Inr (Next dynamic_state1))
   \<and> CtoP0 (self dynamic_state1) = Some [Fin 1, Fin 1]
   \<and> CtoP (self dynamic_state1) = Some [Fin 5, Fin 1]
   \<and> dynamic_CtoP [Fin 5, Fin 0] [Fin 1, Fin 1] = Inr [Fin 5, Fin 1]"
proof -
  have d: "DynamicCtoP (config (self dynamic_state0))"
    by (simp add: dynamic_state0_def dynamic_object_def default_config_def dflt_def
        dynamic_user_config_def)
  have f: "CtoP0 (self dynamic_state0) = Some [Fin 1, Fin 1]"
    by (simp add: dynamic_state0_def dynamic_object_def)
  have s: "continuation_step [[Fin 1]] flat_residual False dynamic_state0
             = Some (Inr (Next dynamic_state1))"
    by (simp add: dynamic_state0_def dynamic_state1_def dynamic_object_def cont_eval
        scripted_solver_def converged_def flat_residual_def dynamic_user_config_def)
  have l: "last (XlamP_full dynamic_state0) = [Fin 5, Fin 0]"
    by (simp add: dynamic_state0_def)
  have c: "CtoP (self dynamic_state1) = Some [Fin 5, Fin 1]"
    by (simp add: dynamic_state1_def)
  from dynamic_CtoP_is_floored_at_every_step[OF d f disjI1[OF s]] s c
  show ?thesis unfolding l by auto
qed

text \<open>
  C5 as stated fails: in the run below the first entry of \<open>CtoP\<close> is 5 in the first step and
  2 in the second one.
\<close>

theorem dynamic_CtoP_decreases:
  "dynamic_run 3 = Some (Inr (XlamP_full dynamic_state2, self dynamic_state2, []))
   \<and> continuation_step [[Fin 1]] flat_residual False dynamic_state0
       = Some (Inr (Next dynamic_state1))
   \<and> continuation_step [[Fin 1]] flat_residual False dynamic_state1
       = Some (Inr (Next dynamic_state2))
   \<and> CtoP (self dynamic_state1) = Some [Fin 5, Fin 1]
   \<and> CtoP (self dynamic_state2) = Some [Fin 2, Fin 1]
   \<and> flt (Fin 2) (Fin 5)"
  by (simp add: dynamic_run_def cont_eval scripted_solver_def converged_def flat_residual_def
      dynamic_user_config_def dynamic_state0_def dynamic_state1_def dynamic_state2_def
      dynamic_object_def)

subsection \<open>Smaller steps and the ladder of FracLam values\<close>

lemmas ladder_eval =
  cont_eval picky_solver_def converged_def failed_def flat_residual_def
  two_value_user_config_def ladder_object_def ladder_state0_def ladder_state1_def
  ladder_state2_def real_sqrt_divide

lemma py_max_Fin: "py_max (Fin a) (Fin b) = Fin (max a b)"
  by (simp add: py_max_def fgt_def max_def)

lemma retry_halve:
  assumes "\<not> success (snd (snd (snd r')))" and "m < s'"
  shows "retry_smaller_steps A (Fin m) (Fin s') r' =
           (case A (Fin (max (s' / 2) m)) of
              Inl e \<Rightarrow> Some (Inl e)
            | Inr r'' \<Rightarrow> retry_smaller_steps A (Fin m) (Fin (max (s' / 2) m)) r'')"
  using assms
  by (subst retry_smaller_steps.simps) (simp add: fgt_def py_max_Fin Let_def)

lemma retry_stop:
  assumes "success (snd (snd (snd r'))) \<or> \<not> m < s'"
  shows "retry_smaller_steps A (Fin m) (Fin s') r' = Some (Inr (Fin s', r'))"
  using assms
  by (subst retry_smaller_steps.simps) (auto simp add: fgt_def)

lemma retry_returns:
  assumes "0 < m" and "s \<le> m * 2 ^ n" and "m \<le> s"
  shows "\<exists>y. retry_smaller_steps A (Fin m) (Fin s) res = Some y
            \<and> (\<forall>ds' res'. y = Inr (ds', res') \<longrightarrow>
                  (\<exists>s'. ds' = Fin s' \<and> m \<le> s' \<and> s' \<le> s
                        \<and> (\<not> success (snd (snd (snd res'))) \<longrightarrow> s' = m)))"
  using assms(2,3)
proof (induction n arbitrary: s res)
  case 0
  then have "s = m" by simp
  then show ?case by (simp add: retry_stop)
next
  case (Suc n)
  show ?case
  proof (cases "success (snd (snd (snd res))) \<or> \<not> m < s")
    case True
    then show ?thesis using Suc.prems by (auto simp add: retry_stop)
  next
    case False
    then have f: "\<not> success (snd (snd (snd res)))" and ms: "m < s" by auto
    let ?s = "max (s / 2) m"
    have b: "?s \<le> m * 2 ^ n" "m \<le> ?s" "?s \<le> s"
      using Suc.prems assms(1) by (auto simp add: max_def)
    show ?thesis
    proof (cases "A (Fin ?s)")
      case (Inl e)
      then show ?thesis by (simp add: retry_halve[OF f ms])
    next
      case (Inr r'')
      from Suc.IH[OF b(1,2), of r''] b(3) show ?thesis
        unfolding retry_halve[OF f ms] Inr by (fastforce simp add: )
    qed
  qed
qed

lemma retry_terminates:
  assumes "0 < m" and "m \<le> s"
  shows "\<exists>y. retry_smaller_steps A (Fin m) (Fin s) res = Some y
            \<and> (\<forall>ds' res'. y = Inr (ds', res') \<longrightarrow>
                  (\<exists>s'. ds' = Fin s' \<and> m \<le> s' \<and> s' \<le> s
                        \<and> (\<not> success (snd (snd (snd res'))) \<longrightarrow> s' = m)))"
proof -
  obtain n where "s / m < 2 ^ n"
    using real_arch_pow[of 2 "s / m"] by auto
  then have "s \<le> m * 2 ^ n"
    using assms(1) by (simp add: pos_divide_less_eq mult.commute)
  from retry_returns[OF assms(1) this assms(2)] show ?thesis .
qed

text \<open>
  C6 (amended).  Take a value \<open>b\<close> of the ladder for which the predictor and the first
  corrector solve return, in a step that starts with a finite \<open>ds \<ge> dsmin > 0\<close>.  The
  corrector solves of the retries are those of \<open>b\<close>.  A failed solve with \<open>ds > dsmin\<close> is
  followed by the solve with \<open>max(ds/2, dsmin)\<close>, and the halving ends.  When the last solve
  has converged the ladder is left with the step size it used; when it has failed, the step
  size is \<open>dsmin\<close> and the rest of the ladder is run from a state whose \<open>ds\<close> is \<open>dsmin\<close>:
  the next value is attempted with the reduced step size, not with the one the step
  started with.
\<close>

theorem ladder_keeps_the_reduced_step:
  assumes pr: "predict ((self st)\<lparr>config := (config (self st))\<lparr>FracLam := b\<rparr>\<rparr>) f
                 (XlamP0 st) (XlamPprev st) (dirC st) = Inr (d, self2)"
      and first: "solve_corrector self2 f (XlamP0 st) d (ds st) = Inr res"
      and s: "ds st = Fin s" and m: "dsmin (config (self st)) = Fin m"
      and pos: "0 < m" and ms: "m \<le> s"
  shows "FracLam (config self2) = b
       \<and> (\<forall>s' r'. \<not> success (snd (snd (snd r'))) \<and> m < s' \<longrightarrow>
             retry_smaller_steps (solve_corrector self2 f (XlamP0 st) d) (Fin m) (Fin s') r' =
               (case solve_corrector self2 f (XlamP0 st) d (Fin (max (s' / 2) m)) of
                  Inl e \<Rightarrow> Some (Inl e)
                | Inr r'' \<Rightarrow>
                    retry_smaller_steps (solve_corrector self2 f (XlamP0 st) d) (Fin m)
                      (Fin (max (s' / 2) m)) r''))
       \<and> (\<exists>y. retry_smaller_steps (solve_corrector self2 f (XlamP0 st) d) (Fin m) (Fin s) res
                 = Some y)
       \<and> (\<forall>ds' xc r j sl.
             retry_smaller_steps (solve_corrector self2 f (XlamP0 st) d) (Fin m) (Fin s) res
               = Some (Inr (ds', xc, r, j, sl)) \<longrightarrow>
             (success sl \<longrightarrow>
                fraclam_loop f (b # bs) st =
                  Some (Inr (st\<lparr>self := self2, dirC := d, ds := ds', XlamC := Some xc,
                                  sol_c := sl\<rparr>)))
           \<and> (\<not> success sl \<longrightarrow>
                ds' = Fin m
              \<and> fraclam_loop f (b # bs) st =
                  fraclam_loop f bs (st\<lparr>self := self2, dirC := d, ds := Fin m,
                                        XlamC := Some xc, sol_c := sl\<rparr>)))"
proof -
  let ?A = "solve_corrector self2 f (XlamP0 st) d"
  from predict_frame[OF pr] obtain rp where
    s2: "self2 = (self st)\<lparr>config := (config (self st))\<lparr>FracLam := b\<rparr>\<rparr>\<lparr>RPtoC := rp\<rparr>"
    by blast
  have b: "FracLam (config self2) = b" and m2: "dsmin (config self2) = Fin m"
    by (simp_all add: s2 m)
  have halve: "\<forall>s' r'. \<not> success (snd (snd (snd r'))) \<and> m < s' \<longrightarrow>
             retry_smaller_steps ?A (Fin m) (Fin s') r' =
               (case ?A (Fin (max (s' / 2) m)) of
                  Inl e \<Rightarrow> Some (Inl e)
                | Inr r'' \<Rightarrow> retry_smaller_steps ?A (Fin m) (Fin (max (s' / 2) m)) r'')"
    using retry_halve by blast
  from retry_terminates[OF pos ms, of ?A res] obtain y where
    y: "retry_smaller_steps ?A (Fin m) (Fin s) res = Some y"
    and yb: "\<forall>ds' res'. y = Inr (ds', res') \<longrightarrow>
                  (\<exists>s'. ds' = Fin s' \<and> m \<le> s' \<and> s' \<le> s
                        \<and> (\<not> success (snd (snd (snd res'))) \<longrightarrow> s' = m))"
    by blast
  have unf: "fraclam_loop f (b # bs) st =
      (case retry_smaller_steps ?A (Fin m) (Fin s) res of
         None \<Rightarrow> None
       | Some (Inl e) \<Rightarrow> Some (Inl e)
       | Some (Inr (ds', (xc, _, _, sl))) \<Rightarrow>
           (let st' = st\<lparr>self := self2, dirC := d, ds := ds', XlamC := Some xc, sol_c := sl\<rparr>
            in if success sl then Some (Inr st') else fraclam_loop f bs st'))"
    using pr first by (simp add: Let_def m2 s)
  have last: "\<forall>ds' xc r j sl.
             retry_smaller_steps ?A (Fin m) (Fin s) res = Some (Inr (ds', xc, r, j, sl)) \<longrightarrow>
             (success sl \<longrightarrow>
                fraclam_loop f (b # bs) st =
                  Some (Inr (st\<lparr>self := self2, dirC := d, ds := ds', XlamC := Some xc,
                                  sol_c := sl\<rparr>)))
           \<and> (\<not> success sl \<longrightarrow>
                ds' = Fin m
              \<and> fraclam_loop f (b # bs) st =
                  fraclam_loop f bs (st\<lparr>self := self2, dirC := d, ds := Fin m,
                                        XlamC := Some xc, sol_c := sl\<rparr>))"
  proof (intro allI impI)
    fix ds' xc r j sl
    assume r: "retry_smaller_steps ?A (Fin m) (Fin s) res = Some (Inr (ds', xc, r, j, sl))"
    with y have "y = Inr (ds', xc, r, j, sl)" by simp
    with yb have d: "\<not> success sl \<longrightarrow> ds' = Fin m" by auto
    show "(success sl \<longrightarrow>
                fraclam_loop f (b # bs) st =
                  Some (Inr (st\<lparr>self := self2, dirC := d, ds := ds', XlamC := Some xc,
                                  sol_c := sl\<rparr>)))
           \<and> (\<not> success sl \<longrightarrow>
                ds' = Fin m
              \<and> fraclam_loop f (b # bs) st =
                  fraclam_loop f bs (st\<lparr>self := self2, dirC := d, ds := Fin m,
                                        XlamC := Some xc, sol_c := sl\<rparr>))"
      using d unfolding unf r by (auto simp add: Let_def)
  qed
  from b halve y last show ?thesis by blast
qed

theorem ladder_keeps_the_reduced_step_witness:
  "fraclam_loop flat_residual [Fin 1, Fin (1 / 4)] ladder_state0
     = fraclam_loop flat_residual [Fin (1 / 4)] ladder_state1
   \<and> ds ladder_state0 = Fin 4 \<and> ds ladder_state1 = Fin 1
   \<and> dsmin (config (self ladder_state0)) = Fin 1"
proof -
  let ?self2 = "ladder_object\<lparr>RPtoC := Scalar (Fin 1)\<rparr>"
  let ?res = "([Fin 1, Fin 4], [], [], failed)"
  have pr: "predict ((self ladder_state0)\<lparr>config := (config (self ladder_state0))\<lparr>FracLam := Fin 1\<rparr>\<rparr>)
              flat_residual (XlamP0 ladder_state0) (XlamPprev ladder_state0) (dirC ladder_state0)
            = Inr ([Fin 0, Fin 1], ?self2)"
    by (simp add: ladder_eval)
  have first: "solve_corrector ?self2 flat_residual (XlamP0 ladder_state0) [Fin 0, Fin 1]
                 (ds ladder_state0) = Inr ?res"
    by (simp add: ladder_eval)
  have s: "ds ladder_state0 = Fin 4" by (simp add: ladder_state0_def)
  have m: "dsmin (config (self ladder_state0)) = Fin 1" by (simp add: ladder_eval)
  have r: "retry_smaller_steps
             (solve_corrector ?self2 flat_residual (XlamP0 ladder_state0) [Fin 0, Fin 1])
             (Fin 1) (Fin 4) ?res = Some (Inr (Fin 1, [Fin 1, Fin 1], [], [], failed))"
    by (simp add: ladder_eval)
  have st1: "ladder_state0\<lparr>self := ?self2, dirC := [Fin 0, Fin 1], ds := Fin 1,
                            XlamC := Some [Fin 1, Fin 1], sol_c := failed\<rparr> = ladder_state1"
    by (simp add: ladder_state1_def)
  have nf: "\<not> success failed" by (simp add: failed_def)
  from ladder_keeps_the_reduced_step[OF pr first s m, of "[Fin (1 / 4)]"] r nf
  have "fraclam_loop flat_residual [Fin 1, Fin (1 / 4)] ladder_state0
          = fraclam_loop flat_residual [Fin (1 / 4)]
              (ladder_state0\<lparr>self := ?self2, dirC := [Fin 0, Fin 1], ds := Fin 1,
                              XlamC := Some [Fin 1, Fin 1], sol_c := failed\<rparr>)"
    by simp
  then show ?thesis unfolding st1 using s m by (simp add: ladder_state1_def)
qed

text \<open>
  C6 as stated fails: the step starts with \<open>ds = 4\<close>; after the first value has failed down
  to \<open>dsmin = 1\<close>, the second value \<open>1/4\<close> is attempted from the guess \<open>[1, 2]\<close> of \<open>ds = 1\<close>,
  and the run stops at its initial point.  The corrector solve of the second value with the
  step size 4 starts from \<open>[1, 8]\<close> and converges.
\<close>

theorem next_FracLam_value_is_not_tried_at_the_old_step:
  "ladder_run = Some (Inr ([[Fin 1, Fin 0]], self ladder_state2, []))
   \<and> fraclam_loop flat_residual [Fin 1, Fin (1 / 4)] ladder_state0 = Some (Inr ladder_state2)
   \<and> ds ladder_state0 = Fin 4
   \<and> ds ladder_state2 = Fin 1
   \<and> XlamC ladder_state2 = Some [Fin 1, Fin 2]
   \<and> \<not> success (sol_c ladder_state2)
   \<and> solve_corrector (self ladder_state2) flat_residual [Fin 1, Fin 0] [Fin 0, Fin 2] (Fin 4)
       = Inr ([Fin 1, Fin 8], [], [], converged)"
  by (simp add: ladder_run_def ladder_eval)

subsection \<open>A corrector that is neither Ortho nor Pseudo\<close>










section \<open>Properties of the nonlinear force elements\<close>

text \<open>
  What \<open>aft\<close> does not do is set apart by what other methods do: \<open>force\<close> with
  \<open>update_hist\<close> commits the history, and the result of \<open>aft\<close> of the rough contact element
  does not even depend on the history variables.
\<close>

lemma RoughContact_aft_reads_no_history:
  "fst (RoughContact_aft kg kl (slf\<lparr>unmax := a, Fm_prev := b, fxy0 := c, uxyn0 := d\<rparr>) U w h Nt
          reps return_local calc_grad)
   = fst (RoughContact_aft kg kl slf U w h Nt reps return_local calc_grad)"
  by (simp add: RoughContact_aft_def aft_args_def Let_def cong: if_cong option.case_cong)

lemma force_commits_the_history:
  assumes "force ks slf x True return_aux = Inr (r, slf')"
  shows "\<exists>uxyn. matvec (rc_Q slf) x = Inr uxyn \<and> uxyn \<noteq> [] \<and> uxyn0 slf' = uxyn
               \<and> unmax slf' = max (last uxyn) (unmax slf)"
  using assms unfolding force_def update_history_def
  by (auto simp add: bindE_Inr split: prod.splits if_splits)

text \<open>
  C4.  For both elements and every input, for any local computation: the call of \<open>aft\<close>
  leaves the object as it was, with its history variables \<open>unmax\<close>, \<open>Fm_prev\<close>, \<open>fxy0\<close> and
  \<open>uxyn0\<close> (the Jenkins element stores no history), and a second call with the same inputs
  on the object that the first call has left returns the same result.
\<close>

theorem aft_is_repeatable_and_keeps_the_history:
  "snd (Jenkins_aft kj e U w h Nt) = e
   \<and> Jenkins_aft kj (snd (Jenkins_aft kj e U w h Nt)) U w h Nt = Jenkins_aft kj e U w h Nt
   \<and> snd (RoughContact_aft kg kl slf U' w' h' Nt' reps return_local calc_grad) = slf
   \<and> RoughContact_aft kg kl
        (snd (RoughContact_aft kg kl slf U' w' h' Nt' reps return_local calc_grad))
        U' w' h' Nt' reps return_local calc_grad
      = RoughContact_aft kg kl slf U' w' h' Nt' reps return_local calc_grad
   \<and> unmax (snd (RoughContact_aft kg kl slf U' w' h' Nt' reps return_local calc_grad))
      = unmax slf
   \<and> Fm_prev (snd (RoughContact_aft kg kl slf U' w' h' Nt' reps return_local calc_grad))
      = Fm_prev slf
   \<and> fxy0 (snd (RoughContact_aft kg kl slf U' w' h' Nt' reps return_local calc_grad))
      = fxy0 slf
   \<and> uxyn0 (snd (RoughContact_aft kg kl slf U' w' h' Nt' reps return_local calc_grad))
      = uxyn0 slf"
proof -
  have j: "snd (Jenkins_aft kj e U w h Nt) = e"
    by (simp add: Jenkins_aft_def)
  have r: "snd (RoughContact_aft kg kl slf U' w' h' Nt' reps return_local calc_grad) = slf"
    by (simp add: RoughContact_aft_def)
  show ?thesis unfolding j r by simp
qed

theorem aft_is_repeatable_and_keeps_the_history_witness:
  "Jenkins_aft linear_kernel unit_jenkins [1, 2, 3] 1 [0, 1] 4
     = (Inr ([1, 2, 3], [[1, 0, 0], [0, 1, 0], [0, 0, 1]], [0, 0, 0]), unit_jenkins)
   \<and> Jenkins_aft linear_kernel
        (snd (Jenkins_aft linear_kernel unit_jenkins [1, 2, 3] 1 [0, 1] 4)) [1, 2, 3] 1 [0, 1] 4
     = (Inr ([1, 2, 3], [[1, 0, 0], [0, 1, 0], [0, 0, 1]], [0, 0, 0]), unit_jenkins)"
proof -
  have e: "Jenkins_aft linear_kernel unit_jenkins [1, 2, 3] 1 [0, 1] 4
     = (Inr ([1, 2, 3], [[1, 0, 0], [0, 1, 0], [0, 0, 1]], [0, 0, 0]), unit_jenkins)"
    by (simp add: Jenkins_aft_def unit_jenkins_def JenkinsForce_init_def linear_kernel_def
        count_Nhc_def reshape_F_def reshape_C_def flatten_F_def last_column_def kron_eye_def
        matmul_def ncols_def bindE_def Let_def upt_rec transpose.simps)
  from aft_is_repeatable_and_keeps_the_history[of linear_kernel unit_jenkins "[1, 2, 3]" 1
      "[0, 1]" 4] e
  show ?thesis by simp
qed

end
